theory Spec2Isabelle
  imports Complex_Main "HOL-Library.Product_Lexorder"
begin

section \<open>The weather module of DSSATTools\<close>

text \<open>
  A shallow embedding of \<^verbatim>\<open>DSSATTools/weather.py\<close>: the parameter catalog, the constructor
  of the \<^verbatim>\<open>Weather\<close> class and its \<^verbatim>\<open>write\<close> method. The pandas table the class works
  on is modelled as far as the module uses it.
\<close>

subsection \<open>Tables\<close>

text \<open>
  A timestamp is a calendar date (year, month, day); the product order of
  \<^verbatim>\<open>Product_Lexorder\<close> is the chronological order. A column holds 64-bit floats, where
  \<open>None\<close> is NaN (every comparison with NaN is false), or timestamps. A table has a row
  index and its columns in their order; column labels are strings, unique in a table, and
  every column is as long as the index.
\<close>

type_synonym date = "nat \<times> nat \<times> nat"

definition year :: "date \<Rightarrow> nat" where
  "year d = fst d"

datatype series = Float64 "rat option list" | Datetime64 "date list"

datatype index = DatetimeIndex "date list" | Int64Index "int list" | Float64Index "rat option list"

record frame =
  index :: index
  columns :: "(string \<times> series) list"

datatype error = AssertionError string | KeyError string | AttributeError | TypeError | OSError

definition colnames :: "frame \<Rightarrow> string list" where
  "colnames f = map fst (columns f)"

fun series_len :: "series \<Rightarrow> nat" where
  "series_len (Float64 xs) = length xs"
| "series_len (Datetime64 ds) = length ds"

fun index_len :: "index \<Rightarrow> nat" where
  "index_len (DatetimeIndex ds) = length ds"
| "index_len (Int64Index ns) = length ns"
| "index_len (Float64Index xs) = length xs"

definition wf_frame :: "frame \<Rightarrow> bool" where
  "wf_frame f \<longleftrightarrow> distinct (colnames f) \<and>
     list_all (\<lambda>(k, s). series_len s = index_len (index f)) (columns f)"

text \<open>\<^verbatim>\<open>data[key]\<close>: the column, KeyError when there is none.\<close>

definition getitem :: "frame \<Rightarrow> string \<Rightarrow> error + series" where
  "getitem f k = (case map_of (columns f) k of None \<Rightarrow> Inl (KeyError k) | Some s \<Rightarrow> Inr s)"

text \<open>\<^verbatim>\<open>data.TMIN\<close>: the column read as an attribute.\<close>

definition getattr :: "frame \<Rightarrow> string \<Rightarrow> error + series" where
  "getattr f k = (case map_of (columns f) k of None \<Rightarrow> Inl AttributeError | Some s \<Rightarrow> Inr s)"

text \<open>
  \<^verbatim>\<open>data[value] = s\<close>: an existing column is replaced where it stands, a new one is
  appended after the last column.
\<close>

fun set_column :: "string \<Rightarrow> series \<Rightarrow> (string \<times> series) list \<Rightarrow> (string \<times> series) list" where
  "set_column k s [] = [(k, s)]"
| "set_column k s ((k', s') # cs) =
     (if k' = k then (k, s) # cs else (k', s') # set_column k s cs)"

definition setitem :: "frame \<Rightarrow> string \<Rightarrow> series \<Rightarrow> frame" where
  "setitem f k s = f\<lparr>columns := set_column k s (columns f)\<rparr>"

text \<open>\<^verbatim>\<open>data.drop(columns=[key])\<close>: KeyError when a label is not a column.\<close>

definition drop_columns :: "frame \<Rightarrow> string list \<Rightarrow> error + frame" where
  "drop_columns f ks =
     (case filter (\<lambda>k. k \<notin> set (colnames f)) ks of
        [] \<Rightarrow> Inr (f\<lparr>columns := filter (\<lambda>(k, s). k \<notin> set ks) (columns f)\<rparr>)
      | k # _ \<Rightarrow> Inl (KeyError k))"

fun is_datetime64_any_dtype :: "series \<Rightarrow> bool" where
  "is_datetime64_any_dtype (Datetime64 ds) = True"
| "is_datetime64_any_dtype (Float64 xs) = False"

fun is_datetime64_index :: "index \<Rightarrow> bool" where
  "is_datetime64_index (DatetimeIndex ds) = True"
| "is_datetime64_index (Int64Index ns) = False"
| "is_datetime64_index (Float64Index xs) = False"

fun index_of_series :: "series \<Rightarrow> index" where
  "index_of_series (Datetime64 ds) = DatetimeIndex ds"
| "index_of_series (Float64 xs) = Float64Index xs"

text \<open>\<^verbatim>\<open>data.set_index(col)\<close>: the column becomes the index and is no longer a column.\<close>

definition set_index :: "frame \<Rightarrow> string \<Rightarrow> error + frame" where
  "set_index f col =
     (case map_of (columns f) col of
        None \<Rightarrow> Inl (KeyError col)
      | Some s \<Rightarrow> Inr \<lparr>index = index_of_series s,
                      columns = filter (\<lambda>(k, s). k \<noteq> col) (columns f)\<rparr>)"

subsection \<open>Comparisons of columns\<close>

definition float_le :: "rat option \<Rightarrow> rat option \<Rightarrow> bool" where
  "float_le x y = (case (x, y) of (Some a, Some b) \<Rightarrow> a \<le> b | _ \<Rightarrow> False)"

text \<open>
  \<^verbatim>\<open>a <= b\<close> on two columns of one table is elementwise; a float column and a timestamp
  column do not compare (TypeError).
\<close>

fun series_le :: "series \<Rightarrow> series \<Rightarrow> error + bool list" where
  "series_le (Float64 xs) (Float64 ys) = Inr (map2 float_le xs ys)"
| "series_le (Datetime64 xs) (Datetime64 ys) = Inr (map2 (\<le>) xs ys)"
| "series_le (Float64 xs) (Datetime64 ys) = Inl TypeError"
| "series_le (Datetime64 xs) (Float64 ys) = Inl TypeError"

text \<open>\<^verbatim>\<open>a >= c\<close> and \<^verbatim>\<open>a <= c\<close> for a number \<open>c\<close>.\<close>

fun series_ge_num :: "series \<Rightarrow> rat \<Rightarrow> error + bool list" where
  "series_ge_num (Float64 xs) c = Inr (map (\<lambda>x. float_le (Some c) x) xs)"
| "series_ge_num (Datetime64 ds) c = Inl TypeError"

fun series_le_num :: "series \<Rightarrow> rat \<Rightarrow> error + bool list" where
  "series_le_num (Float64 xs) c = Inr (map (\<lambda>x. float_le x (Some c)) xs)"
| "series_le_num (Datetime64 ds) c = Inl TypeError"

definition bind_e :: "error + 'a \<Rightarrow> ('a \<Rightarrow> error + 'b) \<Rightarrow> error + 'b" where
  "bind_e m k = (case m of Inl e \<Rightarrow> Inl e | Inr x \<Rightarrow> k x)"

definition all_true :: "bool list \<Rightarrow> bool" where
  "all_true bs = list_all (\<lambda>b. b) bs"

subsection \<open>The parameter catalog\<close>

definition PARS_DESC :: "(string \<times> string) list" where
  "PARS_DESC =
    [(''INSI'', ''Institute and site code''),
     (''LAT'', ''Latitude, degrees (decimals)''),
     (''LONG'', ''Longitude, degrees (decimals)''),
     (''ELEV'', ''Elevation, m''),
     (''TAV'', ''Temperature average for whole year [long-term], C''),
     (''AMP'', ''Temperature amplitude (range), monthly averages [long-term], C''),
     (''REFHT'', ''Reference height for weather measurements, m''),
     (''WNDHT'', ''Reference height for windspeed measurements, m''),
     (''DATE'', ''Date, year + days from Jan. 1''),
     (''SRAD'', ''Daily solar radiation, MJ m-2 day-1''),
     (''TMAX'', ''Daily temperature maximum, C''),
     (''TMIN'', ''Daily temperature minimum, C''),
     (''RAIN'', ''Daily rainfall (incl. snow), mm day-1''),
     (''DEWP'', ''Daily dewpoint temperature average, C''),
     (''WIND'', ''Daily wind speed (km d-1)''),
     (''PAR'', ''Daily photosynthetic radiation, moles m-2 day-1''),
     (''EVAP'', ''Daily pan evaporation (mm d-1)''),
     (''RHUM'', ''Relative humidity average, %'')]"

definition PARS_STATION :: "string list" where
  "PARS_STATION = [''INSI'', ''LAT'', ''LONG'', ''ELEV'', ''TAV'', ''AMP'', ''REFHT'', ''WNDHT'']"

definition PARS_DATA :: "string list" where
  "PARS_DATA = filter (\<lambda>i. i \<notin> set PARS_STATION) (map fst PARS_DESC)"

definition MANDATORY_DATA :: "string list" where
  "MANDATORY_DATA = [''TMIN'', ''TMAX'', ''RAIN'', ''SRAD'']"

subsection \<open>The store\<close>

text \<open>
  Tables are objects: the caller's table and the constructor's working table are two
  places of a store, and the in-place operations of pandas write to one place. A reference
  is a position in the store; a new object is put after the last one.
\<close>

type_synonym ref = nat
type_synonym heap = "frame list"

text \<open>\<^verbatim>\<open>df.copy()\<close>: a new object with the contents of the old one.\<close>

definition copy :: "heap \<Rightarrow> ref \<Rightarrow> heap \<times> ref" where
  "copy h r = (h @ [h ! r], length h)"

subsection \<open>The constructor\<close>

record Weather =
  description :: string
  INSI :: string
  LAT :: rat
  LON :: rat
  ELEV :: rat
  TAV :: rat
  AMP :: rat
  REFHT :: rat
  WNDHT :: rat
  data :: ref

text \<open>
  The loop over \<^verbatim>\<open>pars.items()\<close>, on the working table (the variable \<^verbatim>\<open>data\<close> of the
  source, here the reference \<open>r\<close>). The mapping is the list of the items of the dictionary.
\<close>

fun rename_columns :: "heap \<Rightarrow> ref \<Rightarrow> (string \<times> string) list \<Rightarrow> heap \<times> (error + unit)" where
  "rename_columns h r [] = (h, Inr ())"
| "rename_columns h r ((key, value) # pars) =
     (if value \<notin> set PARS_DATA
      then (h, Inl (AssertionError (value @ '' is not a valid variable name'')))
      else if value \<in> set PARS_DATA \<and> key \<notin> set PARS_DATA
      then (case getitem (h ! r) key of
              Inl e \<Rightarrow> (h, Inl e)
            | Inr s \<Rightarrow>
                (let h1 = h[r := setitem (h ! r) value s]
                 in case drop_columns (h1 ! r) [key] of
                      Inl e \<Rightarrow> (h1, Inl e)
                    | Inr f \<Rightarrow> rename_columns (h1[r := f]) r pars))
      else rename_columns h r pars)"

text \<open>\<^verbatim>\<open>sep.join(xs)\<close>, and the message of the assertion on the mandatory variables.\<close>

fun join :: "string \<Rightarrow> string list \<Rightarrow> string" where
  "join sep [] = []"
| "join sep [x] = x"
| "join sep (x # y # ys) = x @ sep @ join sep (y # ys)"

definition MANDATORY_MSG :: string where
  "MANDATORY_MSG = ''Data must contain at least '' @ join '', '' MANDATORY_DATA @ '' variables''"

definition check_mandatory :: "frame \<Rightarrow> error + unit" where
  "check_mandatory d =
     (if list_all (\<lambda>x. x \<in> set (colnames d)) MANDATORY_DATA then Inr ()
      else Inl (AssertionError MANDATORY_MSG))"

definition TEMP_MSG :: string where
  "TEMP_MSG = ''TMAX < TMIN at some point in the series''"

definition RHUM_MSG :: string where
  "RHUM_MSG = ''0 <= RHUM <= 100 must be accomplished''"

definition RAIN_MSG :: string where
  "RAIN_MSG = ''0 <= RAIN must be accomplished''"

definition SRAD_MSG :: string where
  "SRAD_MSG = ''0 <= SRAD must be accomplished''"

definition DATE_MSG :: string where
  "DATE_MSG = ''At least one of the data columns must be a date''"

definition TEMP_QC :: "frame \<Rightarrow> error + bool" where
  "TEMP_QC d =
     bind_e (getattr d ''TMIN'') (\<lambda>tmin.
     bind_e (getattr d ''TMAX'') (\<lambda>tmax.
     bind_e (series_le tmin tmax) (\<lambda>bs. Inr (all_true bs))))"

definition RHUM_QC :: "frame \<Rightarrow> error + bool" where
  "RHUM_QC d =
     bind_e (getattr d ''RHUM'') (\<lambda>rhum.
     bind_e (series_ge_num rhum 0) (\<lambda>lo.
     bind_e (series_le_num rhum 100) (\<lambda>hi. Inr (all_true (map2 (\<and>) lo hi)))))"

definition RAIN_QC :: "frame \<Rightarrow> error + bool" where
  "RAIN_QC d =
     bind_e (getattr d ''RAIN'') (\<lambda>rain.
     bind_e (series_ge_num rain 0) (\<lambda>bs. Inr (all_true bs)))"

definition SRAD_QC :: "frame \<Rightarrow> error + bool" where
  "SRAD_QC d =
     bind_e (getattr d ''SRAD'') (\<lambda>srad.
     bind_e (series_ge_num srad 0) (\<lambda>bs. Inr (all_true bs)))"

definition assert_that :: "bool \<Rightarrow> string \<Rightarrow> error + unit" where
  "assert_that b msg = (if b then Inr () else Inl (AssertionError msg))"

text \<open>The "really quick QC check" of the constructor, in the order of the source.\<close>

definition quality_control :: "frame \<Rightarrow> error + unit" where
  "quality_control d =
     bind_e (TEMP_QC d) (\<lambda>temp_qc.
     bind_e (assert_that temp_qc TEMP_MSG) (\<lambda>_.
     bind_e (if ''RHUM'' \<in> set (colnames d)
             then bind_e (RHUM_QC d) (\<lambda>rhum_qc. assert_that rhum_qc RHUM_MSG)
             else Inr ()) (\<lambda>_.
     bind_e (RAIN_QC d) (\<lambda>rain_qc.
     bind_e (assert_that rain_qc RAIN_MSG) (\<lambda>_.
     if ''SRAD'' \<in> set (colnames d)
     then bind_e (SRAD_QC d) (\<lambda>srad_qc. assert_that srad_qc SRAD_MSG)
     else Inr ())))))"

text \<open>
  The variable \<^verbatim>\<open>DATE_COL\<close> is \<^verbatim>\<open>False\<close>, \<^verbatim>\<open>True\<close> or a column label. The loop over the
  columns has no \<^verbatim>\<open>break\<close>: every timestamp column overwrites the variable. The assertion
  takes the truth value of the variable, and an empty label is false.
\<close>

datatype date_col = DC_False | DC_True | DC_Str string

fun scan_columns :: "date_col \<Rightarrow> (string \<times> series) list \<Rightarrow> date_col" where
  "scan_columns dc [] = dc"
| "scan_columns dc ((col, s) # cs) =
     scan_columns (if is_datetime64_any_dtype s then DC_Str col else dc) cs"

fun truthy :: "date_col \<Rightarrow> bool" where
  "truthy DC_False = False"
| "truthy DC_True = True"
| "truthy (DC_Str s) = (s \<noteq> [])"

definition check_date_column :: "frame \<Rightarrow> error + date_col" where
  "check_date_column d =
     (let DATE_COL = scan_columns DC_False (columns d);
          DATE_COL = (if is_datetime64_index (index d) then DC_True else DATE_COL)
      in if truthy DATE_COL then Inr DATE_COL else Inl (AssertionError DATE_MSG))"

text \<open>
  \<^verbatim>\<open>str.upper\<close> and \<^verbatim>\<open>self.INSI[:4].upper()\<close>, for texts of ASCII characters: the letters
  \<^verbatim>\<open>a\<close> to \<^verbatim>\<open>z\<close> become \<^verbatim>\<open>A\<close> to \<^verbatim>\<open>Z\<close>, every other character stays. Outside ASCII
  \<^verbatim>\<open>str.upper\<close> follows Unicode and may change the length of a text; that is not modelled.
\<close>

definition upper_char :: "char \<Rightarrow> char" where
  "upper_char c =
     (let n = (of_char c :: nat) in if 97 \<le> n \<and> n \<le> 122 then char_of (n - 32) else c)"

definition upper :: "string \<Rightarrow> string" where
  "upper s = map upper_char s"

definition normalize_INSI :: "string \<Rightarrow> string" where
  "normalize_INSI s = upper (take 4 s)"



text \<open>
  \<^verbatim>\<open>Weather.__init__\<close>: the store and the reference of the table of the caller go in; the
  store and the error or the new object come out. The attribute \<^verbatim>\<open>data\<close> is assigned in
  the last line of the source, so the field of \<open>self\<close> has no meaning before.
\<close>

definition Weather_init ::
  "heap \<Rightarrow> ref \<Rightarrow> (string \<times> string) list \<Rightarrow> rat \<Rightarrow> rat \<Rightarrow> rat \<Rightarrow> heap \<times> (error + Weather)" where
  "Weather_init h df pars lat lon elev =
     (let self = \<lparr>description = ''Weather station'', INSI = ''WSTA'', LAT = lat, LON = lon,
                  ELEV = elev, TAV = 17, AMP = 10, REFHT = 2, WNDHT = 10, data = df\<rparr>;
          (h1, r) = copy h df
      in case rename_columns h1 r pars of
           (h2, Inl e) \<Rightarrow> (h2, Inl e)
         | (h2, Inr _) \<Rightarrow>
            (case bind_e (check_mandatory (h2 ! r)) (\<lambda>_.
                  bind_e (quality_control (h2 ! r)) (\<lambda>_.
                  check_date_column (h2 ! r))) of
               Inl e \<Rightarrow> (h2, Inl e)
             | Inr (DC_Str col) \<Rightarrow>
                 (case set_index (h2 ! r) col of
                    Inl e \<Rightarrow> (h2, Inl e)
                  | Inr f \<Rightarrow>
                      (h2[r := f], Inr (self\<lparr>INSI := normalize_INSI (INSI self), data := r\<rparr>)))
             | Inr _ \<Rightarrow> (h2, Inr (self\<lparr>INSI := normalize_INSI (INSI self), data := r\<rparr>))))"

subsection \<open>The writer\<close>

text \<open>\<^verbatim>\<open>str(year)\<close> for a natural number, zero padding, and \<^verbatim>\<open>strftime('%y%j')\<close>.\<close>

definition digit_char :: "nat \<Rightarrow> char" where
  "digit_char n = char_of (48 + n)"

fun str_nat :: "nat \<Rightarrow> string" where
  "str_nat n = (if n < 10 then [digit_char n] else str_nat (n div 10) @ [digit_char (n mod 10)])"

declare str_nat.simps [simp del]

definition zfill :: "nat \<Rightarrow> string \<Rightarrow> string" where
  "zfill w s = replicate (w - length s) (CHR ''0'') @ s"

definition is_leap :: "nat \<Rightarrow> bool" where
  "is_leap y \<longleftrightarrow> y mod 4 = 0 \<and> (y mod 100 \<noteq> 0 \<or> y mod 400 = 0)"

definition days_in_month :: "nat \<Rightarrow> nat \<Rightarrow> nat" where
  "days_in_month y m =
     (if m = 2 then (if is_leap y then 29 else 28)
      else if m \<in> {4, 6, 9, 11} then 30 else 31)"

fun day_of_year :: "date \<Rightarrow> nat" where
  "day_of_year (y, m, d) = sum_list (map (days_in_month y) [1..<m]) + d"

definition strftime_yj :: "date \<Rightarrow> string" where
  "strftime_yj d = zfill 2 (str_nat (year d mod 100)) @ zfill 3 (str_nat (day_of_year d))"

text \<open>\<^verbatim>\<open>frame.loc[mask]\<close>: the rows where the mask is true, in their order, as a new table.\<close>

definition select :: "bool list \<Rightarrow> 'a list \<Rightarrow> 'a list" where
  "select keep xs = map snd (filter fst (zip keep xs))"

fun select_series :: "bool list \<Rightarrow> series \<Rightarrow> series" where
  "select_series keep (Float64 xs) = Float64 (select keep xs)"
| "select_series keep (Datetime64 ds) = Datetime64 (select keep ds)"

fun select_index :: "bool list \<Rightarrow> index \<Rightarrow> index" where
  "select_index keep (DatetimeIndex ds) = DatetimeIndex (select keep ds)"
| "select_index keep (Int64Index ns) = Int64Index (select keep ns)"
| "select_index keep (Float64Index xs) = Float64Index (select keep xs)"

definition loc :: "frame \<Rightarrow> bool list \<Rightarrow> frame" where
  "loc f keep = \<lparr>index = select_index keep (index f),
                 columns = map (\<lambda>(k, s). (k, select_series keep s)) (columns f)\<rparr>"

text \<open>\<^verbatim>\<open>index >= sim_start\<close> needs timestamps, and so does \<^verbatim>\<open>index.year\<close>.\<close>

fun index_ge :: "index \<Rightarrow> date \<Rightarrow> error + bool list" where
  "index_ge (DatetimeIndex ds) start = Inr (map (\<lambda>d. start \<le> d) ds)"
| "index_ge (Int64Index ns) start = Inl TypeError"
| "index_ge (Float64Index xs) start = Inl TypeError"

fun index_year :: "index \<Rightarrow> error + nat list" where
  "index_year (DatetimeIndex ds) = Inr (map year ds)"
| "index_year (Int64Index ns) = Inl AttributeError"
| "index_year (Float64Index xs) = Inl AttributeError"

text \<open>\<^verbatim>\<open>unique()\<close>: the distinct values in the order of their first occurrence.\<close>

fun unique :: "'a list \<Rightarrow> 'a list" where
  "unique [] = []"
| "unique (x # xs) = x # unique (filter (\<lambda>y. y \<noteq> x) xs)"

text \<open>
  \<^verbatim>\<open>iterrows()\<close> of a table with a timestamp index: each row, in the order of the table, as
  its timestamp and its values in the order of the columns.
\<close>

datatype cell = Num "rat option" | Stamp date

fun series_cells :: "series \<Rightarrow> cell list" where
  "series_cells (Float64 xs) = map Num xs"
| "series_cells (Datetime64 ds) = map Stamp ds"

fun index_dates :: "index \<Rightarrow> date list" where
  "index_dates (DatetimeIndex ds) = ds"
| "index_dates (Int64Index ns) = []"
| "index_dates (Float64Index xs) = []"

definition iterrows :: "frame \<Rightarrow> (date \<times> cell list) list" where
  "iterrows f =
     map (\<lambda>i. (index_dates (index f) ! i, map (\<lambda>(k, s). series_cells s ! i) (columns f)))
       [0..<length (index_dates (index f))]"

text \<open>
  The three formatting functions come from \<^verbatim>\<open>DSSATTools.base.formater\<close>; the writer is
  modelled for any three functions that return a text.
\<close>

record formater =
  weather_station :: "string \<Rightarrow> rat list \<Rightarrow> string"
  weather_data_header :: "string list \<Rightarrow> string"
  weather_data :: "string \<Rightarrow> cell list \<Rightarrow> string"

definition newline :: string where
  "newline = [CHR 0x0A]"

definition data_lines :: "formater \<Rightarrow> frame \<Rightarrow> string list" where
  "data_lines fm df = map (\<lambda>(day, fields). weather_data fm (strftime_yj day) fields) (iterrows df)"

text \<open>The body of the loop over the years: the name and the text of the file of one year.\<close>

definition year_file :: "formater \<Rightarrow> Weather \<Rightarrow> frame \<Rightarrow> nat list \<Rightarrow> nat \<Rightarrow> string \<times> string" where
  "year_file fm self d years y =
     (let df = loc d (map (\<lambda>y'. y' = y) years);
          month = ''01'';
          filename = INSI self @ drop 2 (str_nat y) @ month @ ''.WTH'';
          outstr = ''*WEATHER DATA : '' @ description self @ newline @ newline;
          outstr = outstr @ ''@ INSI      LAT     LONG  ELEV   TAV   AMP REFHT WNDHT'' @ newline;
          outstr = outstr @ weather_station fm (INSI self)
                     [LAT self, LON self, ELEV self, TAV self, AMP self, REFHT self, WNDHT self];
          outstr = outstr @ weather_data_header fm (colnames d);
          outstr = outstr @ concat (data_lines fm df)
      in (filename, outstr))"

text \<open>
  \<^verbatim>\<open>write\<close>. \<open>folder_ok\<close> says that the folder exists or that \<^verbatim>\<open>os.mkdir\<close> creates it;
  \<open>management\<close> is the start of the simulation when the keyword is given. The result is the
  store, the object and the files in the order they are written, each with its name in the
  folder and its text; a later file of the same name replaces an earlier one.
\<close>

definition Weather_write ::
  "formater \<Rightarrow> heap \<Rightarrow> Weather \<Rightarrow> bool \<Rightarrow> date option \<Rightarrow>
     error + (heap \<times> Weather \<times> (string \<times> string) list)" where
  "Weather_write fm h self folder_ok management =
     (if \<not> folder_ok then Inl OSError
      else
        bind_e (case management of
                  None \<Rightarrow> Inr (h, self)
                | Some sim_start \<Rightarrow>
                    bind_e (index_ge (index (h ! data self)) sim_start) (\<lambda>keep.
                      Inr (h @ [loc (h ! data self) keep], self\<lparr>data := length h\<rparr>)))
          (\<lambda>(h1, self1).
             bind_e (index_year (index (h1 ! data self1))) (\<lambda>years.
               Inr (h1, self1, map (year_file fm self1 (h1 ! data self1) years) (unique years)))))"

subsection \<open>The working table after the renaming\<close>

text \<open>
  The table the checks of the constructor see: the copy of the table of the caller after the
  loop over the mapping, when the loop raises nothing.
\<close>

definition mapped :: "heap \<Rightarrow> ref \<Rightarrow> (string \<times> string) list \<Rightarrow> error + frame" where
  "mapped h df pars =
     (let (h1, r) = copy h df
      in case rename_columns h1 r pars of
           (h2, Inl e) \<Rightarrow> Inl e
         | (h2, Inr _) \<Rightarrow> Inr (h2 ! r))"

text \<open>The object a successful construction returns, with its table at \<open>r\<close>.\<close>

definition new_station :: "rat \<Rightarrow> rat \<Rightarrow> rat \<Rightarrow> ref \<Rightarrow> Weather" where
  "new_station lat lon elev r =
     \<lparr>description = ''Weather station'', INSI = normalize_INSI ''WSTA'', LAT = lat, LON = lon,
      ELEV = elev, TAV = 17, AMP = 10, REFHT = 2, WNDHT = 10, data = r\<rparr>"

subsection \<open>The quality rules, on the values of the columns\<close>

text \<open>
  The rules of the quality check as the specification words them, for columns of floats:
  \<open>TMIN[i] \<le> TMAX[i]\<close> on every row, every value a number of \<open>[lo, hi]\<close>, every value a
  number that is at least \<open>lo\<close>. A missing value satisfies none of them.
\<close>

definition TMIN_le_TMAX :: "rat option list \<Rightarrow> rat option list \<Rightarrow> bool" where
  "TMIN_le_TMAX tmin tmax =
     list_all (\<lambda>(x, y). case x of None \<Rightarrow> False
                 | Some a \<Rightarrow> (case y of None \<Rightarrow> False | Some b \<Rightarrow> a \<le> b)) (zip tmin tmax)"

definition all_within :: "rat \<Rightarrow> rat \<Rightarrow> rat option list \<Rightarrow> bool" where
  "all_within lo hi xs = list_all (\<lambda>x. case x of None \<Rightarrow> False | Some a \<Rightarrow> lo \<le> a \<and> a \<le> hi) xs"

definition all_at_least :: "rat \<Rightarrow> rat option list \<Rightarrow> bool" where
  "all_at_least lo xs = list_all (\<lambda>x. case x of None \<Rightarrow> False | Some a \<Rightarrow> lo \<le> a) xs"

text \<open>A table of floats with the five checked columns and one row per date.\<close>

definition qc_table ::
  "date list \<Rightarrow> rat option list \<Rightarrow> rat option list \<Rightarrow> rat option list \<Rightarrow> rat option list \<Rightarrow>
     rat option list \<Rightarrow> frame" where
  "qc_table dates tmin tmax rhum rain srad =
     \<lparr>index = DatetimeIndex dates,
      columns = [(''TMIN'', Float64 tmin), (''TMAX'', Float64 tmax), (''RHUM'', Float64 rhum),
                 (''RAIN'', Float64 rain), (''SRAD'', Float64 srad)]\<rparr>"

subsection \<open>What an error message names\<close>

text \<open>
  The mandatory variables a table lacks, and the weather variables whose name occurs in a
  message.
\<close>

definition missing_mandatory :: "frame \<Rightarrow> string list" where
  "missing_mandatory d = filter (\<lambda>x. x \<notin> set (colnames d)) MANDATORY_DATA"

fun mentions :: "string \<Rightarrow> string \<Rightarrow> bool" where
  "mentions name [] = (name = [])"
| "mentions name (c # cs) = (take (length name) (c # cs) = name \<or> mentions name cs)"

definition named_variables :: "string \<Rightarrow> string list" where
  "named_variables msg = filter (\<lambda>x. mentions x msg) PARS_DATA"

text \<open>Example tables: one row, one of them without the column SRAD, one without TMIN.\<close>

definition no_SRAD_df :: frame where
  "no_SRAD_df =
     \<lparr>index = DatetimeIndex [(2000, 1, 1)],
      columns = [(''TMIN'', Float64 [Some 10]), (''TMAX'', Float64 [Some 20]),
                 (''RAIN'', Float64 [Some 0])]\<rparr>"

definition no_TMIN_df :: frame where
  "no_TMIN_df =
     \<lparr>index = DatetimeIndex [(2000, 1, 1)],
      columns = [(''TMAX'', Float64 [Some 20]), (''RAIN'', Float64 [Some 0]),
                 (''SRAD'', Float64 [Some 15])]\<rparr>"

subsection \<open>The timestamp columns of a table\<close>

text \<open>The labels of the columns that hold timestamps, from left to right.\<close>

definition datetime_columns :: "frame \<Rightarrow> string list" where
  "datetime_columns d = map fst (filter (\<lambda>(k, s). is_datetime64_any_dtype s) (columns d))"

text \<open>
  An example table with an integer index and two columns of timestamps, \<^verbatim>\<open>d1\<close> to the left
  of \<^verbatim>\<open>d2\<close>, and a table with no timestamps at all.
\<close>

definition two_dates_df :: frame where
  "two_dates_df =
     \<lparr>index = Int64Index [0],
      columns = [(''d1'', Datetime64 [(2000, 1, 1)]), (''TMIN'', Float64 [Some 10]),
                 (''TMAX'', Float64 [Some 20]), (''RAIN'', Float64 [Some 0]),
                 (''SRAD'', Float64 [Some 15]), (''d2'', Datetime64 [(1999, 12, 31)])]\<rparr>"

definition no_dates_df :: frame where
  "no_dates_df =
     \<lparr>index = Int64Index [0],
      columns = [(''TMIN'', Float64 [Some 10]), (''TMAX'', Float64 [Some 20]),
                 (''RAIN'', Float64 [Some 0]), (''SRAD'', Float64 [Some 15])]\<rparr>"

subsection \<open>The constraints on the input of the constructor\<close>

text \<open>
  The source columns the loop over the mapping renames (the keys that are not themselves
  names of weather variables) and the names they are renamed to.
\<close>

definition renamed_keys :: "(string \<times> string) list \<Rightarrow> string list" where
  "renamed_keys pars = map fst (filter (\<lambda>(k, v). k \<notin> set PARS_DATA) pars)"

definition rename_targets :: "(string \<times> string) list \<Rightarrow> string list" where
  "rename_targets pars = map snd (filter (\<lambda>(k, v). k \<notin> set PARS_DATA) pars)"

text \<open>
  The mapping fits the table: it is a dictionary (no key twice), every value is the name of a
  weather variable, and every key that is renamed is a column.
\<close>

definition valid_mapping :: "frame \<Rightarrow> (string \<times> string) list \<Rightarrow> bool" where
  "valid_mapping f pars \<longleftrightarrow>
     distinct (map fst pars) \<and>
     list_all (\<lambda>(k, v). v \<in> set PARS_DATA) pars \<and>
     list_all (\<lambda>k. k \<in> set (colnames f)) (renamed_keys pars)"

text \<open>
  The table satisfies the quality rules: the four mandatory columns are there, they hold
  floats, and so does RHUM when it is there; every rule holds of the values.
\<close>

definition float_column :: "frame \<Rightarrow> string \<Rightarrow> rat option list option" where
  "float_column d k =
     (case map_of (columns d) k of Some (Float64 xs) \<Rightarrow> Some xs | _ \<Rightarrow> None)"

definition satisfies_QC :: "frame \<Rightarrow> bool" where
  "satisfies_QC d =
     (case (float_column d ''TMIN'', float_column d ''TMAX'',
            float_column d ''RAIN'', float_column d ''SRAD'') of
        (Some tmin, Some tmax, Some rain, Some srad) \<Rightarrow>
          TMIN_le_TMAX tmin tmax \<and> all_at_least 0 rain \<and> all_at_least 0 srad \<and>
          (case map_of (columns d) ''RHUM'' of
             None \<Rightarrow> True
           | Some (Float64 rhum) \<Rightarrow> all_within 0 100 rhum
           | Some (Datetime64 ds) \<Rightarrow> False)
      | _ \<Rightarrow> False)"

text \<open>
  The table has a source of dates: a timestamp index, or a column of timestamps, the last of
  which has a label that is not empty. The column the constructor then takes out of the table.
\<close>

definition has_date_source :: "frame \<Rightarrow> bool" where
  "has_date_source d \<longleftrightarrow>
     is_datetime64_index (index d) \<or>
     datetime_columns d \<noteq> [] \<and> last (datetime_columns d) \<noteq> []"

definition adopted_date_column :: "frame \<Rightarrow> string list" where
  "adopted_date_column d =
     (if is_datetime64_index (index d) then [] else [last (datetime_columns d)])"

text \<open>An example table with a column that the mapping does not mention.\<close>

definition extra_column_df :: frame where
  "extra_column_df =
     \<lparr>index = DatetimeIndex [(2000, 1, 1)],
      columns = [(''tn'', Float64 [Some 10]), (''TMAX'', Float64 [Some 20]),
                 (''RAIN'', Float64 [Some 0]), (''SRAD'', Float64 [Some 15]),
                 (''foo'', Float64 [Some 1])]\<rparr>"

subsection \<open>An example station\<close>

text \<open>
  The table and the mapping of the example in the docstring of the module, with two days of
  data, and the station the constructor makes of them.
\<close>

definition example_df :: frame where
  "example_df =
     \<lparr>index = DatetimeIndex [(2000, 1, 1), (2000, 1, 2)],
      columns = [(''tn'', Float64 [Some 10, Some 11]),
                 (''rad'', Float64 [Some 15, Some (31 / 2)]),
                 (''prec'', Float64 [Some 0, Some (3 / 10)]),
                 (''rh'', Float64 [Some 80, Some 75]),
                 (''TMAX'', Float64 [Some 20, Some 21])]\<rparr>"

definition example_pars :: "(string \<times> string) list" where
  "example_pars = [(''tn'', ''TMIN''), (''rad'', ''SRAD''), (''prec'', ''RAIN''),
                   (''rh'', ''RHUM''), (''TMAX'', ''TMAX'')]"

definition example_data :: frame where
  "example_data =
     \<lparr>index = DatetimeIndex [(2000, 1, 1), (2000, 1, 2)],
      columns = [(''TMAX'', Float64 [Some 20, Some 21]),
                 (''TMIN'', Float64 [Some 10, Some 11]),
                 (''SRAD'', Float64 [Some 15, Some (31 / 2)]),
                 (''RAIN'', Float64 [Some 0, Some (3 / 10)]),
                 (''RHUM'', Float64 [Some 80, Some 75])]\<rparr>"

definition example_station :: Weather where
  "example_station =
     \<lparr>description = ''Weather station'', INSI = ''WSTA'', LAT = 227 / 50, LON = - (751 / 10),
      ELEV = 1800, TAV = 17, AMP = 10, REFHT = 2, WNDHT = 10, data = 1\<rparr>"

subsection \<open>What the writer leaves behind\<close>

text \<open>
  The records of a station, row by row; the text of a file before its data lines; the line of
  one row; the names of the files a call of the writer has written.
\<close>

definition records :: "heap \<Rightarrow> Weather \<Rightarrow> (date \<times> cell list) list" where
  "records h self = iterrows (h ! data self)"



definition written_files ::
  "error + (heap \<times> Weather \<times> (string \<times> string) list) \<Rightarrow> (string \<times> string) list" where
  "written_files res = (case res of Inl e \<Rightarrow> [] | Inr (h, self, files) \<Rightarrow> files)"



text \<open>
  For the examples: a formatter that writes of the station its code, of the columns their
  labels and of a day its date token, each on a line; records that are not in the
  order of their dates; records of two years; records of two
  years a century apart; the example station with its records at the first place of the
  store; a station whose code has six characters.
\<close>

definition plain_formater :: formater where
  "plain_formater =
     \<lparr>weather_station = (\<lambda>insi pars. insi @ newline),
      weather_data_header = (\<lambda>cols. ''@DATE'' @ concat (map (\<lambda>c. CHR '' '' # c) cols) @ newline),
      weather_data = (\<lambda>day fields. day @ newline)\<rparr>"


definition two_year_data :: frame where
  "two_year_data =
     \<lparr>index = DatetimeIndex [(2000, 12, 30), (2000, 12, 31), (2001, 1, 1)],
      columns = [(''TMIN'', Float64 [Some 10, Some 11, Some 12]),
                 (''TMAX'', Float64 [Some 20, Some 21, Some 22]),
                 (''RAIN'', Float64 [Some 0, Some 0, Some 0]),
                 (''SRAD'', Float64 [Some 15, Some 15, Some 15])]\<rparr>"


definition first_station :: Weather where
  "first_station = example_station\<lparr>data := 0\<rparr>"

definition long_code_station :: Weather where
  "long_code_station = example_station\<lparr>INSI := ''ABCDEF'', data := 0\<rparr>"

section \<open>Properties\<close>

subsection \<open>The example\<close>


subsection \<open>The constructor works on a copy\<close>

lemma rename_columns_heap: "\<exists>f. fst (rename_columns h r pars) = h[r := f]"
proof (induction pars arbitrary: h)
  case Nil
  have "h = h[r := h ! r]" by simp
  then show ?case by (metis fst_conv rename_columns.simps(1))
next
  case (Cons p pars)
  obtain key val where p: "p = (key, val)" by (cases p)
  show ?case
  proof (cases "val \<in> set PARS_DATA \<and> key \<notin> set PARS_DATA")
    case False
    then show ?thesis using Cons.IH[of h] p
      by (auto intro: exI[of _ "h ! r"])
  next
    case True
    show ?thesis
    proof (cases "getitem (h ! r) key")
      case (Inl e)
      then show ?thesis using True p by (auto intro: exI[of _ "h ! r"])
    next
      case (Inr s)
      let ?h1 = "h[r := setitem (h ! r) val s]"
      show ?thesis
      proof (cases "drop_columns (?h1 ! r) [key]")
        case (Inl e)
        then show ?thesis using True p Inr by (auto simp: Let_def)
      next
        case (Inr f)
        obtain g where "fst (rename_columns (?h1[r := f]) r pars) = (?h1[r := f])[r := g]"
          using Cons.IH by blast
        then show ?thesis using True p Inr \<open>getitem (h ! r) key = Inr s\<close>
          by (auto simp: Let_def)
      qed
    qed
  qed
qed

lemma Weather_init_heap: "\<exists>f. fst (Weather_init h df pars lat lon elev) = h @ [f]"
proof -
  obtain g where
    "fst (rename_columns (h @ [h ! df]) (length h) pars) = (h @ [h ! df])[length h := g]"
    using rename_columns_heap by blast
  then have g: "fst (rename_columns (h @ [h ! df]) (length h) pars) = h @ [g]" by simp
  show ?thesis
    unfolding Weather_init_def copy_def Let_def
    using g by (auto split: prod.splits sum.splits date_col.splits)
qed

text \<open>
  Claim C8. The constructor works on a copy of the table it is given: whether it succeeds or
  fails, the table of the caller (and every other object the caller has) is after the call
  what it was before, in its index, its columns and every value.
\<close>

theorem Weather_init_keeps_caller_table:
  "df < length h \<Longrightarrow>
     fst (Weather_init h df pars lat lon elev) ! df = h ! df \<and>
     take (length h) (fst (Weather_init h df pars lat lon elev)) = h"
  using Weather_init_heap[of h df pars lat lon elev] by (auto simp: nth_append)

theorem Weather_init_keeps_caller_table_witness:
  "(0::nat) < length [example_df] \<and>
   fst (Weather_init [example_df] 0 example_pars (227 / 50) (- (751 / 10)) 1800) ! 0 = example_df \<and>
   example_data \<noteq> example_df"
proof -
  have "(0::nat) < length [example_df]" by simp
  from Weather_init_keeps_caller_table[OF this, of example_pars "227 / 50" "- (751 / 10)" 1800]
  have "fst (Weather_init [example_df] 0 example_pars (227 / 50) (- (751 / 10)) 1800) ! 0 = example_df"
    by simp
  moreover have "example_data \<noteq> example_df"
    by (simp add: example_data_def example_df_def)
  ultimately show ?thesis by simp
qed

subsection \<open>The institute code\<close>









subsection \<open>The constructor in terms of the renamed table\<close>

lemma mapped_heap:
  assumes "mapped h df pars = Inr d"
  shows "rename_columns (h @ [h ! df]) (length h) pars = (h @ [d], Inr ())"
proof -
  obtain g where
    "fst (rename_columns (h @ [h ! df]) (length h) pars) = (h @ [h ! df])[length h := g]"
    using rename_columns_heap by blast
  then have g: "fst (rename_columns (h @ [h ! df]) (length h) pars) = h @ [g]" by simp
  obtain h2 res where r: "rename_columns (h @ [h ! df]) (length h) pars = (h2, res)"
    by (cases "rename_columns (h @ [h ! df]) (length h) pars")
  with g have h2: "h2 = h @ [g]" by simp
  from assms r have "res = Inr ()" "d = h2 ! length h"
    by (auto simp: mapped_def copy_def split: sum.splits)
  with h2 r show ?thesis by simp
qed

lemma mapped_fail:
  "mapped h df pars = Inl e \<Longrightarrow> snd (Weather_init h df pars lat lon elev) = Inl e"
  by (auto simp: mapped_def Weather_init_def copy_def Let_def split: prod.splits sum.splits)

lemma Weather_init_mapped:
  assumes "mapped h df pars = Inr d"
  shows "Weather_init h df pars lat lon elev =
     (case bind_e (check_mandatory d) (\<lambda>_. bind_e (quality_control d) (\<lambda>_. check_date_column d)) of
        Inl e \<Rightarrow> (h @ [d], Inl e)
      | Inr (DC_Str col) \<Rightarrow>
          (case set_index d col of
             Inl e \<Rightarrow> (h @ [d], Inl e)
           | Inr f \<Rightarrow> (h @ [f], Inr (new_station lat lon elev (length h))))
      | Inr _ \<Rightarrow> (h @ [d], Inr (new_station lat lon elev (length h))))"
  using mapped_heap[OF assms]
  by (simp add: Weather_init_def copy_def new_station_def split: sum.splits date_col.splits)

subsection \<open>Well-formed tables stay well-formed under the renaming\<close>

lemma getitem_wf:
  "wf_frame f \<Longrightarrow> getitem f k = Inr s \<Longrightarrow> series_len s = index_len (index f)"
  by (auto simp: wf_frame_def getitem_def list_all_iff split: option.splits dest!: map_of_SomeD)

lemma set_column_names: "fst ` set (set_column k s cs) = insert k (fst ` set cs)"
  by (induction cs) (force split: if_splits)+

lemma set_column_distinct: "distinct (map fst cs) \<Longrightarrow> distinct (map fst (set_column k s cs))"
  by (induction cs) (auto simp: set_column_names)

lemma set_column_all:
  "list_all P cs \<Longrightarrow> P (k, s) \<Longrightarrow> list_all P (set_column k s cs)"
  by (induction cs) auto

lemma setitem_wf:
  "wf_frame f \<Longrightarrow> series_len s = index_len (index f) \<Longrightarrow> wf_frame (setitem f k s)"
  by (simp add: wf_frame_def setitem_def colnames_def set_column_distinct set_column_all)

lemma setitem_colnames: "set (colnames (setitem f k s)) = insert k (set (colnames f))"
  by (simp add: setitem_def colnames_def set_column_names)

lemma drop_columns_wf: "wf_frame f \<Longrightarrow> drop_columns f ks = Inr f' \<Longrightarrow> wf_frame f'"
  by (auto simp: wf_frame_def drop_columns_def colnames_def distinct_map_filter list_all_iff
      split: list.splits)

lemma drop_columns_colnames:
  "drop_columns f ks = Inr f' \<Longrightarrow> set (colnames f') = set (colnames f) - set ks"
  by (auto simp: drop_columns_def colnames_def split: list.splits)

lemma drop_columns_ok:
  assumes "set ks \<subseteq> set (colnames f)"
  shows "\<exists>f'. drop_columns f ks = Inr f'"
proof -
  have "filter (\<lambda>k. k \<notin> set (colnames f)) ks = []"
    using assms by (auto simp: filter_empty_conv)
  then show ?thesis by (simp add: drop_columns_def)
qed

lemma rename_columns_wf:
  "r < length h \<Longrightarrow> wf_frame (h ! r) \<Longrightarrow> wf_frame (fst (rename_columns h r pars) ! r)"
proof (induction pars arbitrary: h)
  case Nil
  then show ?case by simp
next
  case (Cons p pars)
  obtain key val where p: "p = (key, val)" by (cases p)
  show ?case
  proof (cases "val \<in> set PARS_DATA \<and> key \<notin> set PARS_DATA")
    case False
    then show ?thesis using Cons p by auto
  next
    case True
    show ?thesis
    proof (cases "getitem (h ! r) key")
      case (Inl e)
      then show ?thesis using True p Cons.prems by auto
    next
      case (Inr s)
      let ?f1 = "setitem (h ! r) val s"
      have wf1: "wf_frame ?f1"
        using Cons.prems(2) Inr by (intro setitem_wf getitem_wf)
      show ?thesis
      proof (cases "drop_columns ?f1 [key]")
        case (Inl e)
        then show ?thesis using True p Inr Cons.prems(1) wf1 by (auto simp: Let_def)
      next
        case (Inr f)
        then have "wf_frame f" using wf1 drop_columns_wf by blast
        then have "wf_frame (fst (rename_columns (h[r := f]) r pars) ! r)"
          using Cons.prems(1) by (intro Cons.IH) simp_all
        then show ?thesis using True p Inr \<open>getitem (h ! r) key = Inr s\<close> Cons.prems(1)
          by (auto simp: Let_def)
      qed
    qed
  qed
qed

lemma mapped_wf:
  assumes "df < length h" "wf_frame (h ! df)" "mapped h df pars = Inr d"
  shows "wf_frame d"
proof -
  have "wf_frame (fst (rename_columns (h @ [h ! df]) (length h) pars) ! length h)"
    using assms(1,2) by (intro rename_columns_wf) (simp_all add: nth_append)
  then show ?thesis using mapped_heap[OF assms(3)] by simp
qed

subsection \<open>The quality check on columns of floats\<close>

lemma all_true_map2_le: "all_true (map2 float_le xs ys) = TMIN_le_TMAX xs ys"
  by (auto simp: all_true_def TMIN_le_TMAX_def float_le_def list_all_iff split: option.splits)

lemma all_true_ge: "all_true (map (\<lambda>x. float_le (Some c) x) xs) = all_at_least c xs"
  by (auto simp: all_true_def all_at_least_def float_le_def list_all_iff split: option.splits)

lemma all_true_within:
  "all_true (map2 (\<and>) (map (\<lambda>x. float_le (Some lo) x) xs) (map (\<lambda>x. float_le x (Some hi)) xs)) =
     all_within lo hi xs"
  by (induction xs) (auto simp: all_true_def all_within_def float_le_def split: option.splits)

lemma in_colnames: "k \<in> set (colnames d) \<longleftrightarrow> map_of (columns d) k \<noteq> None"
  by (simp add: colnames_def map_of_eq_None_iff)

lemma TEMP_QC_floats:
  "map_of (columns d) ''TMIN'' = Some (Float64 tmin) \<Longrightarrow>
   map_of (columns d) ''TMAX'' = Some (Float64 tmax) \<Longrightarrow>
   TEMP_QC d = Inr (TMIN_le_TMAX tmin tmax)"
  by (simp add: TEMP_QC_def getattr_def bind_e_def all_true_map2_le)

lemma RHUM_QC_floats:
  "map_of (columns d) ''RHUM'' = Some (Float64 rhum) \<Longrightarrow> RHUM_QC d = Inr (all_within 0 100 rhum)"
  by (simp add: RHUM_QC_def getattr_def bind_e_def all_true_within)

lemma RAIN_QC_floats:
  "map_of (columns d) ''RAIN'' = Some (Float64 rain) \<Longrightarrow> RAIN_QC d = Inr (all_at_least 0 rain)"
  by (simp add: RAIN_QC_def getattr_def bind_e_def all_true_ge)

lemma SRAD_QC_floats:
  "map_of (columns d) ''SRAD'' = Some (Float64 srad) \<Longrightarrow> SRAD_QC d = Inr (all_at_least 0 srad)"
  by (simp add: SRAD_QC_def getattr_def bind_e_def all_true_ge)

lemma qc_TEMP:
  assumes "map_of (columns d) ''TMIN'' = Some (Float64 tmin)"
    and "map_of (columns d) ''TMAX'' = Some (Float64 tmax)"
    and "\<not> TMIN_le_TMAX tmin tmax"
  shows "quality_control d = Inl (AssertionError TEMP_MSG)"
  using assms by (simp add: quality_control_def TEMP_QC_floats bind_e_def assert_that_def)

lemma qc_RHUM:
  assumes "map_of (columns d) ''TMIN'' = Some (Float64 tmin)"
    and "map_of (columns d) ''TMAX'' = Some (Float64 tmax)"
    and "TMIN_le_TMAX tmin tmax"
    and "map_of (columns d) ''RHUM'' = Some (Float64 rhum)"
    and "\<not> all_within 0 100 rhum"
  shows "quality_control d = Inl (AssertionError RHUM_MSG)"
  using assms
  by (simp add: quality_control_def TEMP_QC_floats RHUM_QC_floats in_colnames bind_e_def
      assert_that_def)

lemma qc_RAIN:
  assumes "map_of (columns d) ''TMIN'' = Some (Float64 tmin)"
    and "map_of (columns d) ''TMAX'' = Some (Float64 tmax)"
    and "TMIN_le_TMAX tmin tmax"
    and "map_of (columns d) ''RHUM'' = None \<or>
         map_of (columns d) ''RHUM'' = Some (Float64 rhum) \<and> all_within 0 100 rhum"
    and "map_of (columns d) ''RAIN'' = Some (Float64 rain)"
    and "\<not> all_at_least 0 rain"
  shows "quality_control d = Inl (AssertionError RAIN_MSG)"
  using assms
  by (auto simp: quality_control_def TEMP_QC_floats RHUM_QC_floats RAIN_QC_floats in_colnames
      bind_e_def assert_that_def)

lemma qc_SRAD:
  assumes "map_of (columns d) ''TMIN'' = Some (Float64 tmin)"
    and "map_of (columns d) ''TMAX'' = Some (Float64 tmax)"
    and "TMIN_le_TMAX tmin tmax"
    and "map_of (columns d) ''RHUM'' = None \<or>
         map_of (columns d) ''RHUM'' = Some (Float64 rhum) \<and> all_within 0 100 rhum"
    and "map_of (columns d) ''RAIN'' = Some (Float64 rain)"
    and "all_at_least 0 rain"
    and "map_of (columns d) ''SRAD'' = Some (Float64 srad)"
    and "\<not> all_at_least 0 srad"
  shows "quality_control d = Inl (AssertionError SRAD_MSG)"
  using assms
  by (auto simp: quality_control_def TEMP_QC_floats RHUM_QC_floats RAIN_QC_floats SRAD_QC_floats
      in_colnames bind_e_def assert_that_def)

lemma qc_pass:
  assumes "map_of (columns d) ''TMIN'' = Some (Float64 tmin)"
    and "map_of (columns d) ''TMAX'' = Some (Float64 tmax)"
    and "TMIN_le_TMAX tmin tmax"
    and "map_of (columns d) ''RHUM'' = None \<or>
         map_of (columns d) ''RHUM'' = Some (Float64 rhum) \<and> all_within 0 100 rhum"
    and "map_of (columns d) ''RAIN'' = Some (Float64 rain)"
    and "all_at_least 0 rain"
    and "map_of (columns d) ''SRAD'' = Some (Float64 srad)"
    and "all_at_least 0 srad"
  shows "quality_control d = Inr ()"
  using assms
  by (auto simp: quality_control_def TEMP_QC_floats RHUM_QC_floats RAIN_QC_floats SRAD_QC_floats
      in_colnames bind_e_def assert_that_def)

lemma qc_fail:
  assumes "mapped h df pars = Inr d" and "check_mandatory d = Inr ()"
    and "quality_control d = Inl e"
  shows "snd (Weather_init h df pars lat lon elev) = Inl e"
  using assms(2,3) by (simp add: Weather_init_mapped[OF assms(1)] bind_e_def)

lemma wf_column_length:
  "wf_frame d \<Longrightarrow> map_of (columns d) k = Some s \<Longrightarrow> series_len s = index_len (index d)"
  by (auto simp: wf_frame_def list_all_iff dest!: map_of_SomeD)

lemma row_violates_TEMP:
  assumes "i < length tmin" "length tmax = length tmin"
    and "tmin ! i = Some a" "tmax ! i = Some b" "b < a"
  shows "\<not> TMIN_le_TMAX tmin tmax"
proof
  assume "TMIN_le_TMAX tmin tmax"
  moreover have "(tmin ! i, tmax ! i) \<in> set (zip tmin tmax)"
    using assms(1,2) by (metis in_set_zip fst_conv snd_conv)
  ultimately show False using assms(3-5) by (auto simp: TMIN_le_TMAX_def list_all_iff)
qed

lemma NaN_violates_TEMP:
  assumes "length tmax = length tmin" "None \<in> set tmin \<union> set tmax"
  shows "\<not> TMIN_le_TMAX tmin tmax"
proof
  assume ok: "TMIN_le_TMAX tmin tmax"
  from assms(2) obtain i where i: "i < length tmin" "tmin ! i = None \<or> tmax ! i = None"
    using assms(1) by (auto simp: in_set_conv_nth)
  then have "(tmin ! i, tmax ! i) \<in> set (zip tmin tmax)"
    using assms(1) by (metis in_set_zip fst_conv snd_conv)
  with ok i(2) show False by (auto simp: TMIN_le_TMAX_def list_all_iff split: option.splits)
qed

lemma NaN_violates_within: "None \<in> set xs \<Longrightarrow> \<not> all_within lo hi xs"
  by (force simp: all_within_def list_all_iff)

lemma NaN_violates_at_least: "None \<in> set xs \<Longrightarrow> \<not> all_at_least lo xs"
  by (force simp: all_at_least_def list_all_iff)

subsection \<open>The mandatory variables\<close>

lemma MANDATORY_MSG_text:
  "MANDATORY_MSG = ''Data must contain at least TMIN, TMAX, RAIN, SRAD variables''"
  by (simp add: MANDATORY_MSG_def MANDATORY_DATA_def)

lemma PARS_DATA_list:
  "PARS_DATA = [''DATE'', ''SRAD'', ''TMAX'', ''TMIN'', ''RAIN'', ''DEWP'', ''WIND'', ''PAR'',
                ''EVAP'', ''RHUM'']"
  by (simp add: PARS_DATA_def PARS_DESC_def PARS_STATION_def)

lemma named_variables_MANDATORY_MSG:
  "named_variables MANDATORY_MSG = [''SRAD'', ''TMAX'', ''TMIN'', ''RAIN'']"
  unfolding MANDATORY_MSG_text named_variables_def PARS_DATA_list by simp

lemma check_mandatory_missing:
  "missing_mandatory d \<noteq> [] \<Longrightarrow> check_mandatory d = Inl (AssertionError MANDATORY_MSG)"
  by (auto simp: check_mandatory_def missing_mandatory_def filter_empty_conv list_all_iff)

lemma check_mandatory_ok:
  "missing_mandatory d = [] \<Longrightarrow> check_mandatory d = Inr ()"
  by (auto simp: check_mandatory_def missing_mandatory_def filter_empty_conv list_all_iff)

lemma mapped_no_pars: "mapped [t] 0 [] = Inr t"
  by (simp add: mapped_def copy_def)

text \<open>
  Claim C3, as amended. When a mandatory variable is not a column of the table after the
  renaming, the constructor fails with the assertion on the mandatory variables. Its message
  is a fixed text that names all four mandatory variables, whichever of them are missing.
\<close>

theorem missing_mandatory_fixed_message:
  assumes "mapped h df pars = Inr d" and "missing_mandatory d \<noteq> []"
  shows "snd (Weather_init h df pars lat lon elev) = Inl (AssertionError MANDATORY_MSG) \<and>
         MANDATORY_MSG = ''Data must contain at least TMIN, TMAX, RAIN, SRAD variables'' \<and>
         set (named_variables MANDATORY_MSG) = set MANDATORY_DATA"
proof -
  have "snd (Weather_init h df pars lat lon elev) = Inl (AssertionError MANDATORY_MSG)"
    using check_mandatory_missing[OF assms(2)]
    by (simp add: Weather_init_mapped[OF assms(1)] bind_e_def)
  moreover have "set (named_variables MANDATORY_MSG) = set MANDATORY_DATA"
    unfolding named_variables_MANDATORY_MSG MANDATORY_DATA_def by auto
  ultimately show ?thesis using MANDATORY_MSG_text by simp
qed

theorem missing_mandatory_fixed_message_witness:
  "mapped [no_TMIN_df] 0 [] = Inr no_TMIN_df \<and> missing_mandatory no_TMIN_df = [''TMIN''] \<and>
   snd (Weather_init [no_TMIN_df] 0 [] 0 0 0) =
     Inl (AssertionError ''Data must contain at least TMIN, TMAX, RAIN, SRAD variables'')"
proof -
  have m: "mapped [no_TMIN_df] 0 [] = Inr no_TMIN_df" by (rule mapped_no_pars)
  have miss: "missing_mandatory no_TMIN_df = [''TMIN'']"
    by (simp add: missing_mandatory_def no_TMIN_df_def colnames_def MANDATORY_DATA_def)
  then have ne: "missing_mandatory no_TMIN_df \<noteq> []" by simp
  from missing_mandatory_fixed_message[OF m ne, of 0 0 0] m miss show ?thesis by simp
qed

text \<open>
  Claim C3 as stated fails: for a table that lacks only SRAD the message names TMIN, TMAX and
  RAIN as well, so the variables the error names are not the missing ones.
\<close>

theorem missing_names_not_listed:
  "snd (Weather_init [no_SRAD_df] 0 [] 0 0 0) = Inl (AssertionError MANDATORY_MSG) \<and>
   missing_mandatory no_SRAD_df = [''SRAD''] \<and>
   named_variables MANDATORY_MSG = [''SRAD'', ''TMAX'', ''TMIN'', ''RAIN''] \<and>
   set (named_variables MANDATORY_MSG) \<noteq> set (missing_mandatory no_SRAD_df)"
proof -
  have miss: "missing_mandatory no_SRAD_df = [''SRAD'']"
    by (simp add: missing_mandatory_def no_SRAD_df_def colnames_def MANDATORY_DATA_def)
  then have "check_mandatory no_SRAD_df = Inl (AssertionError MANDATORY_MSG)"
    by (intro check_mandatory_missing) simp
  then have "snd (Weather_init [no_SRAD_df] 0 [] 0 0 0) = Inl (AssertionError MANDATORY_MSG)"
    by (simp add: Weather_init_mapped[OF mapped_no_pars] bind_e_def)
  moreover have "set (named_variables MANDATORY_MSG) \<noteq> set (missing_mandatory no_SRAD_df)"
    unfolding named_variables_MANDATORY_MSG miss by auto
  ultimately show ?thesis using miss named_variables_MANDATORY_MSG by simp
qed

subsection \<open>The order of the quality rules, and missing values\<close>

lemma qc_table_columns:
  "map_of (columns (qc_table ds tmin tmax rhum rain srad)) ''TMIN'' = Some (Float64 tmin)"
  "map_of (columns (qc_table ds tmin tmax rhum rain srad)) ''TMAX'' = Some (Float64 tmax)"
  "map_of (columns (qc_table ds tmin tmax rhum rain srad)) ''RHUM'' = Some (Float64 rhum)"
  "map_of (columns (qc_table ds tmin tmax rhum rain srad)) ''RAIN'' = Some (Float64 rain)"
  "map_of (columns (qc_table ds tmin tmax rhum rain srad)) ''SRAD'' = Some (Float64 srad)"
  by (simp_all add: qc_table_def)

lemma qc_table_mandatory: "check_mandatory (qc_table ds tmin tmax rhum rain srad) = Inr ()"
  by (simp add: check_mandatory_def qc_table_def colnames_def MANDATORY_DATA_def)

lemma qc_table_wf:
  "wf_frame (qc_table [d] [a] [b] [c] [e] [f])"
  by (simp add: wf_frame_def qc_table_def colnames_def)

text \<open>
  Claim C2. On a table that passes the renaming and the check of the mandatory variables, with
  numeric TMIN and TMAX, a row with \<open>TMIN > TMAX\<close> makes the constructor fail with the
  assertion of the quality check on the temperatures, and nothing is constructed. The rules
  are checked in the order TMIN \<open>\<le>\<close> TMAX, RHUM in \<open>[0, 100]\<close> when the column is there,
  RAIN \<open>\<ge> 0\<close>, SRAD \<open>\<ge> 0\<close>, and the error is that of the first rule that is violated.
\<close>

theorem quality_control_first_violation:
  assumes "df < length h" and "wf_frame (h ! df)"
    and "mapped h df pars = Inr d" and "check_mandatory d = Inr ()"
    and "map_of (columns d) ''TMIN'' = Some (Float64 tmin)"
    and "map_of (columns d) ''TMAX'' = Some (Float64 tmax)"
  shows
    "((\<exists>i a b. i < length tmin \<and> tmin ! i = Some a \<and> tmax ! i = Some b \<and> b < a) \<longrightarrow>
        snd (Weather_init h df pars lat lon elev) = Inl (AssertionError TEMP_MSG)) \<and>
     (\<not> TMIN_le_TMAX tmin tmax \<longrightarrow>
        snd (Weather_init h df pars lat lon elev) = Inl (AssertionError TEMP_MSG)) \<and>
     (TMIN_le_TMAX tmin tmax \<and>
      map_of (columns d) ''RHUM'' = Some (Float64 rhum) \<and> \<not> all_within 0 100 rhum \<longrightarrow>
        snd (Weather_init h df pars lat lon elev) = Inl (AssertionError RHUM_MSG)) \<and>
     (TMIN_le_TMAX tmin tmax \<and>
      (map_of (columns d) ''RHUM'' = None \<or>
       map_of (columns d) ''RHUM'' = Some (Float64 rhum) \<and> all_within 0 100 rhum) \<and>
      map_of (columns d) ''RAIN'' = Some (Float64 rain) \<and> \<not> all_at_least 0 rain \<longrightarrow>
        snd (Weather_init h df pars lat lon elev) = Inl (AssertionError RAIN_MSG)) \<and>
     (TMIN_le_TMAX tmin tmax \<and>
      (map_of (columns d) ''RHUM'' = None \<or>
       map_of (columns d) ''RHUM'' = Some (Float64 rhum) \<and> all_within 0 100 rhum) \<and>
      map_of (columns d) ''RAIN'' = Some (Float64 rain) \<and> all_at_least 0 rain \<and>
      map_of (columns d) ''SRAD'' = Some (Float64 srad) \<and> \<not> all_at_least 0 srad \<longrightarrow>
        snd (Weather_init h df pars lat lon elev) = Inl (AssertionError SRAD_MSG))"
proof -
  note fail = qc_fail[OF assms(3,4), of _ lat lon elev]
  have wf: "wf_frame d" using assms(1-3) by (rule mapped_wf)
  have len: "length tmax = length tmin"
    using wf_column_length[OF wf assms(5)] wf_column_length[OF wf assms(6)] by simp
  have temp: "\<not> TMIN_le_TMAX tmin tmax \<Longrightarrow>
      snd (Weather_init h df pars lat lon elev) = Inl (AssertionError TEMP_MSG)"
    by (rule fail, rule qc_TEMP[OF assms(5,6)])
  have row: "(\<exists>i a b. i < length tmin \<and> tmin ! i = Some a \<and> tmax ! i = Some b \<and> b < a) \<Longrightarrow>
      snd (Weather_init h df pars lat lon elev) = Inl (AssertionError TEMP_MSG)"
    using temp row_violates_TEMP[OF _ len] by blast
  have rhum: "TMIN_le_TMAX tmin tmax \<Longrightarrow>
      map_of (columns d) ''RHUM'' = Some (Float64 rhum) \<Longrightarrow> \<not> all_within 0 100 rhum \<Longrightarrow>
      snd (Weather_init h df pars lat lon elev) = Inl (AssertionError RHUM_MSG)"
    by (rule fail, rule qc_RHUM[OF assms(5,6)])
  have rain: "TMIN_le_TMAX tmin tmax \<Longrightarrow>
      map_of (columns d) ''RHUM'' = None \<or>
       map_of (columns d) ''RHUM'' = Some (Float64 rhum) \<and> all_within 0 100 rhum \<Longrightarrow>
      map_of (columns d) ''RAIN'' = Some (Float64 rain) \<Longrightarrow> \<not> all_at_least 0 rain \<Longrightarrow>
      snd (Weather_init h df pars lat lon elev) = Inl (AssertionError RAIN_MSG)"
    by (rule fail, rule qc_RAIN[OF assms(5,6)])
  have srad: "TMIN_le_TMAX tmin tmax \<Longrightarrow>
      map_of (columns d) ''RHUM'' = None \<or>
       map_of (columns d) ''RHUM'' = Some (Float64 rhum) \<and> all_within 0 100 rhum \<Longrightarrow>
      map_of (columns d) ''RAIN'' = Some (Float64 rain) \<Longrightarrow> all_at_least 0 rain \<Longrightarrow>
      map_of (columns d) ''SRAD'' = Some (Float64 srad) \<Longrightarrow> \<not> all_at_least 0 srad \<Longrightarrow>
      snd (Weather_init h df pars lat lon elev) = Inl (AssertionError SRAD_MSG)"
    by (rule fail, rule qc_SRAD[OF assms(5,6)])
  show ?thesis
    apply (intro conjI impI)
    subgoal by (rule row)
    subgoal by (rule temp)
    subgoal by (rule rhum) blast+
    subgoal by (rule rain) blast+
    subgoal by (rule srad) blast+
    done
qed


theorem quality_control_first_violation_witness:
  "(20::rat) < 25 \<and>
   snd (Weather_init [qc_table [(2000, 1, 1)] [Some 25] [Some 20] [Some 50] [Some 0] [Some 10]]
          0 [] 0 0 0) = Inl (AssertionError TEMP_MSG) \<and>
   snd (Weather_init [qc_table [(2000, 1, 1)] [Some 10] [Some 20] [Some 120] [Some 0] [Some 10]]
          0 [] 0 0 0) = Inl (AssertionError RHUM_MSG) \<and>
   snd (Weather_init [qc_table [(2000, 1, 1)] [Some 10] [Some 20] [Some 50] [Some (- 1)] [Some 10]]
          0 [] 0 0 0) = Inl (AssertionError RAIN_MSG) \<and>
   snd (Weather_init [qc_table [(2000, 1, 1)] [Some 10] [Some 20] [Some 50] [Some 0] [Some (- 5)]]
          0 [] 0 0 0) = Inl (AssertionError SRAD_MSG)"
proof -
  have ok: "TMIN_le_TMAX [Some 10] [Some 20]" "all_within 0 100 [Some 50]"
    "all_at_least 0 [Some 0]"
    by (simp_all add: TMIN_le_TMAX_def all_within_def all_at_least_def)
  have bad: "\<not> TMIN_le_TMAX [Some 25] [Some 20]" "\<not> all_within 0 100 [Some 120]"
    "\<not> all_at_least 0 [Some (- 1)]" "\<not> all_at_least 0 [Some (- 5)]"
    by (simp_all add: TMIN_le_TMAX_def all_within_def all_at_least_def)
  have r1: "snd (Weather_init [qc_table [(2000, 1, 1)] [Some 25] [Some 20] [Some 50] [Some 0] [Some 10]]
          0 [] 0 0 0) = Inl (AssertionError TEMP_MSG)"
    using quality_control_first_violation[where h="[qc_table [(2000, 1, 1)] [Some 25] [Some 20] [Some 50] [Some 0] [Some 10]]"
        and df=0 and pars="[]" and d="qc_table [(2000, 1, 1)] [Some 25] [Some 20] [Some 50] [Some 0] [Some 10]"
        and tmin="[Some 25]" and tmax="[Some 20]" and rhum="[Some 50]" and rain="[Some 0]"
        and srad="[Some 10]" and lat=0 and lon=0 and elev=0] ok bad
    by (simp add: mapped_no_pars qc_table_mandatory qc_table_columns qc_table_wf)
  have r2: "snd (Weather_init [qc_table [(2000, 1, 1)] [Some 10] [Some 20] [Some 120] [Some 0] [Some 10]]
          0 [] 0 0 0) = Inl (AssertionError RHUM_MSG)"
    using quality_control_first_violation[where h="[qc_table [(2000, 1, 1)] [Some 10] [Some 20] [Some 120] [Some 0] [Some 10]]"
        and df=0 and pars="[]" and d="qc_table [(2000, 1, 1)] [Some 10] [Some 20] [Some 120] [Some 0] [Some 10]"
        and tmin="[Some 10]" and tmax="[Some 20]" and rhum="[Some 120]" and rain="[Some 0]"
        and srad="[Some 10]" and lat=0 and lon=0 and elev=0] ok bad
    by (simp add: mapped_no_pars qc_table_mandatory qc_table_columns qc_table_wf)
  have r3: "snd (Weather_init [qc_table [(2000, 1, 1)] [Some 10] [Some 20] [Some 50] [Some (- 1)] [Some 10]]
          0 [] 0 0 0) = Inl (AssertionError RAIN_MSG)"
    using quality_control_first_violation[where h="[qc_table [(2000, 1, 1)] [Some 10] [Some 20] [Some 50] [Some (- 1)] [Some 10]]"
        and df=0 and pars="[]" and d="qc_table [(2000, 1, 1)] [Some 10] [Some 20] [Some 50] [Some (- 1)] [Some 10]"
        and tmin="[Some 10]" and tmax="[Some 20]" and rhum="[Some 50]" and rain="[Some (- 1)]"
        and srad="[Some 10]" and lat=0 and lon=0 and elev=0] ok bad
    by (simp add: mapped_no_pars qc_table_mandatory qc_table_columns qc_table_wf)
  have r4: "snd (Weather_init [qc_table [(2000, 1, 1)] [Some 10] [Some 20] [Some 50] [Some 0] [Some (- 5)]]
          0 [] 0 0 0) = Inl (AssertionError SRAD_MSG)"
    using quality_control_first_violation[where h="[qc_table [(2000, 1, 1)] [Some 10] [Some 20] [Some 50] [Some 0] [Some (- 5)]]"
        and df=0 and pars="[]" and d="qc_table [(2000, 1, 1)] [Some 10] [Some 20] [Some 50] [Some 0] [Some (- 5)]"
        and tmin="[Some 10]" and tmax="[Some 20]" and rhum="[Some 50]" and rain="[Some 0]"
        and srad="[Some (- 5)]" and lat=0 and lon=0 and elev=0] ok bad
    by (simp add: mapped_no_pars qc_table_mandatory qc_table_columns qc_table_wf)
  from r1 r2 r3 r4 show ?thesis by simp
qed

text \<open>
  Claim C10. On a table that passes the renaming and the check of the mandatory variables, a
  missing value in TMIN, TMAX, RAIN, SRAD, or in RHUM when the column is there, makes the
  constructor fail with one of the four assertions of the quality check.
\<close>

theorem missing_value_fails_quality_control:
  assumes "df < length h" and "wf_frame (h ! df)"
    and "mapped h df pars = Inr d" and "check_mandatory d = Inr ()"
    and "map_of (columns d) ''TMIN'' = Some (Float64 tmin)"
    and "map_of (columns d) ''TMAX'' = Some (Float64 tmax)"
    and "map_of (columns d) ''RAIN'' = Some (Float64 rain)"
    and "map_of (columns d) ''SRAD'' = Some (Float64 srad)"
    and "map_of (columns d) ''RHUM'' = None \<and> rhum = [] \<or>
         map_of (columns d) ''RHUM'' = Some (Float64 rhum)"
    and "None \<in> set tmin \<union> set tmax \<union> set rain \<union> set srad \<union> set rhum"
  shows "snd (Weather_init h df pars lat lon elev) = Inl (AssertionError TEMP_MSG) \<or>
         snd (Weather_init h df pars lat lon elev) = Inl (AssertionError RHUM_MSG) \<or>
         snd (Weather_init h df pars lat lon elev) = Inl (AssertionError RAIN_MSG) \<or>
         snd (Weather_init h df pars lat lon elev) = Inl (AssertionError SRAD_MSG)"
proof -
  note fail = qc_fail[OF assms(3,4), of _ lat lon elev]
  have wf: "wf_frame d" using assms(1-3) by (rule mapped_wf)
  have len: "length tmax = length tmin"
    using wf_column_length[OF wf assms(5)] wf_column_length[OF wf assms(6)] by simp
  show ?thesis
  proof (cases "TMIN_le_TMAX tmin tmax")
    case False
    then show ?thesis using fail[OF qc_TEMP[OF assms(5,6)]] by simp
  next
    case temp: True
    then have nt: "None \<notin> set tmin \<union> set tmax" using NaN_violates_TEMP[OF len] by blast
    show ?thesis
    proof (cases "map_of (columns d) ''RHUM'' = Some (Float64 rhum) \<and> \<not> all_within 0 100 rhum")
      case True
      then show ?thesis using fail[OF qc_RHUM[OF assms(5,6) temp]] by simp
    next
      case False
      then have rh: "map_of (columns d) ''RHUM'' = None \<or>
          map_of (columns d) ''RHUM'' = Some (Float64 rhum) \<and> all_within 0 100 rhum"
        using assms(9) by blast
      have nr: "None \<notin> set rhum"
        using False assms(9) NaN_violates_within[of rhum 0 100] by auto
      show ?thesis
      proof (cases "all_at_least 0 rain")
        case False
        then show ?thesis using fail[OF qc_RAIN[OF assms(5,6) temp rh assms(7)]] by simp
      next
        case rain: True
        then have "None \<notin> set rain" using NaN_violates_at_least by blast
        with nt nr assms(10) have "None \<in> set srad" by blast
        then have "\<not> all_at_least 0 srad" by (rule NaN_violates_at_least)
        then show ?thesis
          using fail[OF qc_SRAD[OF assms(5,6) temp rh assms(7) rain assms(8)]] by simp
      qed
    qed
  qed
qed

theorem missing_value_fails_quality_control_witness:
  "None \<in> set [Some 10] \<union> set [Some 20] \<union> set [None] \<union> set [Some 10] \<union> set [Some (50::rat)] \<and>
   snd (Weather_init [qc_table [(2000, 1, 1)] [Some 10] [Some 20] [Some 50] [None] [Some 10]]
          0 [] 0 0 0) = Inl (AssertionError RAIN_MSG)"
proof -
  have n: "None \<in> set [Some 10] \<union> set [Some 20] \<union> set [None] \<union> set [Some 10] \<union> set [Some (50::rat)]"
    by simp
  have r: "map_of (columns (qc_table [(2000, 1, 1)] [Some 10] [Some 20] [Some 50] [None] [Some 10])) ''RHUM'' = None \<and> [Some 50] = [] \<or>
           map_of (columns (qc_table [(2000, 1, 1)] [Some 10] [Some 20] [Some 50] [None] [Some 10])) ''RHUM'' = Some (Float64 [Some 50])"
    by (simp add: qc_table_columns)
  have "(0::nat) < length [qc_table [(2000, 1, 1)] [Some 10] [Some 20] [Some 50] [None] [Some 10]]"
    by simp
  moreover have "wf_frame ([qc_table [(2000, 1, 1)] [Some 10] [Some 20] [Some 50] [None] [Some 10]] ! 0)"
    by (simp add: qc_table_wf)
  ultimately have "snd (Weather_init [qc_table [(2000, 1, 1)] [Some 10] [Some 20] [Some 50] [None] [Some 10]] 0 [] 0 0 0) = Inl (AssertionError TEMP_MSG) \<or>
         snd (Weather_init [qc_table [(2000, 1, 1)] [Some 10] [Some 20] [Some 50] [None] [Some 10]] 0 [] 0 0 0) = Inl (AssertionError RHUM_MSG) \<or>
         snd (Weather_init [qc_table [(2000, 1, 1)] [Some 10] [Some 20] [Some 50] [None] [Some 10]] 0 [] 0 0 0) = Inl (AssertionError RAIN_MSG) \<or>
         snd (Weather_init [qc_table [(2000, 1, 1)] [Some 10] [Some 20] [Some 50] [None] [Some 10]] 0 [] 0 0 0) = Inl (AssertionError SRAD_MSG)"
    using missing_value_fails_quality_control[OF _ _ mapped_no_pars qc_table_mandatory
        qc_table_columns(1,2,4,5) r n, of 0 0 0] by blast
  moreover have "snd (Weather_init [qc_table [(2000, 1, 1)] [Some 10] [Some 20] [Some 50] [None] [Some 10]]
          0 [] 0 0 0) = Inl (AssertionError RAIN_MSG)"
  proof (rule qc_fail[OF mapped_no_pars qc_table_mandatory])
    show "quality_control (qc_table [(2000, 1, 1)] [Some 10] [Some 20] [Some 50] [None] [Some 10]) =
        Inl (AssertionError RAIN_MSG)"
      by (rule qc_RAIN[OF qc_table_columns(1,2) _ _ qc_table_columns(4), where rhum="[Some 50]"])
        (simp_all add: qc_table_columns TMIN_le_TMAX_def all_within_def all_at_least_def)
  qed
  ultimately show ?thesis using n by blast
qed

subsection \<open>The source of the dates\<close>

lemma scan_columns_last:
  "scan_columns dc cs =
     (if filter (\<lambda>(k, s). is_datetime64_any_dtype s) cs = [] then dc
      else DC_Str (last (map fst (filter (\<lambda>(k, s). is_datetime64_any_dtype s) cs))))"
  by (induction cs arbitrary: dc) auto

lemma check_date_column_index:
  "is_datetime64_index (index d) \<Longrightarrow> check_date_column d = Inr DC_True"
  by (simp add: check_date_column_def Let_def)

lemma check_date_column_none:
  "\<not> is_datetime64_index (index d) \<Longrightarrow> datetime_columns d = [] \<Longrightarrow>
     check_date_column d = Inl (AssertionError DATE_MSG)"
  by (simp add: check_date_column_def Let_def scan_columns_last datetime_columns_def)

lemma check_date_column_last:
  "\<not> is_datetime64_index (index d) \<Longrightarrow> datetime_columns d \<noteq> [] \<Longrightarrow>
   last (datetime_columns d) \<noteq> [] \<Longrightarrow>
     check_date_column d = Inr (DC_Str (last (datetime_columns d)))"
  by (simp add: check_date_column_def Let_def scan_columns_last datetime_columns_def)

lemma datetime_column_lookup:
  assumes "wf_frame d" and "c \<in> set (datetime_columns d)"
  shows "\<exists>ds. map_of (columns d) c = Some (Datetime64 ds)"
proof -
  from assms(2) obtain s where s: "(c, s) \<in> set (columns d)" "is_datetime64_any_dtype s"
    by (auto simp: datetime_columns_def)
  then obtain ds where "s = Datetime64 ds" by (cases s) auto
  moreover have "map_of (columns d) c = Some s"
    using assms(1) s(1) by (simp add: wf_frame_def colnames_def)
  ultimately show ?thesis by simp
qed

lemma set_index_datetime:
  "map_of (columns d) c = Some (Datetime64 ds) \<Longrightarrow>
     set_index d c = Inr \<lparr>index = DatetimeIndex ds,
                          columns = filter (\<lambda>(k, s). k \<noteq> c) (columns d)\<rparr>"
  by (simp add: set_index_def)

text \<open>
  Claim C4, as amended. On a table that has passed the earlier checks: a timestamp index is
  kept as it is, with every column; otherwise the last column of timestamps (with a label
  that is not empty) becomes the index and is no longer a column; with neither a timestamp
  index nor a timestamp column the constructor fails with the assertion on the date.
\<close>

theorem date_source_resolution:
  assumes "df < length h" and "wf_frame (h ! df)"
    and "mapped h df pars = Inr d"
    and "check_mandatory d = Inr ()" and "quality_control d = Inr ()"
  shows
    "(is_datetime64_index (index d) \<longrightarrow>
        snd (Weather_init h df pars lat lon elev) = Inr (new_station lat lon elev (length h)) \<and>
        fst (Weather_init h df pars lat lon elev) ! length h = d) \<and>
     (\<not> is_datetime64_index (index d) \<and> datetime_columns d \<noteq> [] \<and>
      last (datetime_columns d) \<noteq> [] \<longrightarrow>
        snd (Weather_init h df pars lat lon elev) = Inr (new_station lat lon elev (length h)) \<and>
        is_datetime64_index (index (fst (Weather_init h df pars lat lon elev) ! length h)) \<and>
        map_of (columns d) (last (datetime_columns d)) =
          Some (Datetime64 (index_dates (index (fst (Weather_init h df pars lat lon elev) ! length h)))) \<and>
        columns (fst (Weather_init h df pars lat lon elev) ! length h) =
          filter (\<lambda>(k, s). k \<noteq> last (datetime_columns d)) (columns d)) \<and>
     (\<not> is_datetime64_index (index d) \<and> datetime_columns d = [] \<longrightarrow>
        snd (Weather_init h df pars lat lon elev) = Inl (AssertionError DATE_MSG))"
proof (intro conjI impI)
  note W = Weather_init_mapped[OF assms(3), of lat lon elev]
  have wf: "wf_frame d" using assms(1-3) by (rule mapped_wf)
  {
    assume "is_datetime64_index (index d)"
    then have "check_date_column d = Inr DC_True" by (rule check_date_column_index)
    then have "Weather_init h df pars lat lon elev =
        (h @ [d], Inr (new_station lat lon elev (length h)))"
      using assms(4,5) by (simp add: W bind_e_def)
    then show "snd (Weather_init h df pars lat lon elev) = Inr (new_station lat lon elev (length h))"
      and "fst (Weather_init h df pars lat lon elev) ! length h = d"
      by simp_all
  }
  {
    assume a: "\<not> is_datetime64_index (index d) \<and> datetime_columns d \<noteq> [] \<and>
      last (datetime_columns d) \<noteq> []"
    let ?c = "last (datetime_columns d)"
    from a have c: "check_date_column d = Inr (DC_Str ?c)" by (simp add: check_date_column_last)
    from a have "?c \<in> set (datetime_columns d)" by simp
    then obtain ds where ds: "map_of (columns d) ?c = Some (Datetime64 ds)"
      using datetime_column_lookup[OF wf] by blast
    have "Weather_init h df pars lat lon elev =
        (h @ [\<lparr>index = DatetimeIndex ds, columns = filter (\<lambda>(k, s). k \<noteq> ?c) (columns d)\<rparr>],
         Inr (new_station lat lon elev (length h)))"
      using assms(4,5) c by (simp add: W bind_e_def set_index_datetime[OF ds])
    then show "snd (Weather_init h df pars lat lon elev) = Inr (new_station lat lon elev (length h))"
      and "is_datetime64_index (index (fst (Weather_init h df pars lat lon elev) ! length h))"
      and "map_of (columns d) ?c =
          Some (Datetime64 (index_dates (index (fst (Weather_init h df pars lat lon elev) ! length h))))"
      and "columns (fst (Weather_init h df pars lat lon elev) ! length h) =
          filter (\<lambda>(k, s). k \<noteq> ?c) (columns d)"
      using ds by simp_all
  }
  {
    assume "\<not> is_datetime64_index (index d) \<and> datetime_columns d = []"
    then have "check_date_column d = Inl (AssertionError DATE_MSG)"
      by (simp add: check_date_column_none)
    then show "snd (Weather_init h df pars lat lon elev) = Inl (AssertionError DATE_MSG)"
      using assms(4,5) by (simp add: W bind_e_def)
  }
qed


lemma two_dates_df_facts:
  "wf_frame two_dates_df" "check_mandatory two_dates_df = Inr ()"
  "quality_control two_dates_df = Inr ()" "\<not> is_datetime64_index (index two_dates_df)"
  "datetime_columns two_dates_df = [''d1'', ''d2'']"
  by code_simp+

lemma no_dates_df_facts:
  "wf_frame no_dates_df" "check_mandatory no_dates_df = Inr ()"
  "quality_control no_dates_df = Inr ()" "\<not> is_datetime64_index (index no_dates_df)"
  "datetime_columns no_dates_df = []"
  by code_simp+

lemma example_data_facts:
  "wf_frame example_data" "check_mandatory example_data = Inr ()"
  "quality_control example_data = Inr ()" "is_datetime64_index (index example_data)"
  by code_simp+

theorem date_source_resolution_witness:
  "snd (Weather_init [example_data] 0 [] 0 0 0) = Inr (new_station 0 0 0 1) \<and>
   fst (Weather_init [example_data] 0 [] 0 0 0) ! 1 = example_data \<and>
   snd (Weather_init [two_dates_df] 0 [] 0 0 0) = Inr (new_station 0 0 0 1) \<and>
   index (fst (Weather_init [two_dates_df] 0 [] 0 0 0) ! 1) = DatetimeIndex [(1999, 12, 31)] \<and>
   map fst (columns (fst (Weather_init [two_dates_df] 0 [] 0 0 0) ! 1)) =
     [''d1'', ''TMIN'', ''TMAX'', ''RAIN'', ''SRAD''] \<and>
   snd (Weather_init [no_dates_df] 0 [] 0 0 0) = Inl (AssertionError DATE_MSG)"
proof -
  have a: "snd (Weather_init [example_data] 0 [] 0 0 0) = Inr (new_station 0 0 0 1) \<and>
      fst (Weather_init [example_data] 0 [] 0 0 0) ! 1 = example_data"
    using date_source_resolution[where h="[example_data]" and df=0 and pars="[]"
        and d=example_data and lat=0 and lon=0 and elev=0]
    by (simp add: mapped_no_pars example_data_facts)
  let ?F = "fst (Weather_init [two_dates_df] 0 [] 0 0 0) ! 1"
  have b: "snd (Weather_init [two_dates_df] 0 [] 0 0 0) = Inr (new_station 0 0 0 1) \<and>
      is_datetime64_index (index ?F) \<and>
      map_of (columns two_dates_df) ''d2'' = Some (Datetime64 (index_dates (index ?F))) \<and>
      columns ?F = filter (\<lambda>(k, s). k \<noteq> ''d2'') (columns two_dates_df)"
    using date_source_resolution[where h="[two_dates_df]" and df=0 and pars="[]"
        and d=two_dates_df and lat=0 and lon=0 and elev=0]
    by (simp add: mapped_no_pars two_dates_df_facts)
  then have "index_dates (index ?F) = [(1999, 12, 31)]"
    by (simp add: two_dates_df_def)
  with b have bi: "index ?F = DatetimeIndex [(1999, 12, 31)]"
    by (cases "index ?F") simp_all
  from b have bc: "map fst (columns ?F) = [''d1'', ''TMIN'', ''TMAX'', ''RAIN'', ''SRAD'']"
    by (simp add: two_dates_df_def)
  have c: "snd (Weather_init [no_dates_df] 0 [] 0 0 0) = Inl (AssertionError DATE_MSG)"
    using date_source_resolution[where h="[no_dates_df]" and df=0 and pars="[]"
        and d=no_dates_df and lat=0 and lon=0 and elev=0]
    by (simp add: mapped_no_pars no_dates_df_facts)
  from a b bi bc c show ?thesis by simp
qed

text \<open>
  Claim C4 as stated fails: of two columns of timestamps the constructor adopts the right
  one, \<^verbatim>\<open>d2\<close>; the first one, \<^verbatim>\<open>d1\<close>, stays a column.
\<close>

theorem first_datetime_column_not_adopted:
  "hd (datetime_columns two_dates_df) = ''d1'' \<and>
   fst (Weather_init [two_dates_df] 0 [] 0 0 0) ! 1 =
     \<lparr>index = DatetimeIndex [(1999, 12, 31)],
      columns = [(''d1'', Datetime64 [(2000, 1, 1)]), (''TMIN'', Float64 [Some 10]),
                 (''TMAX'', Float64 [Some 20]), (''RAIN'', Float64 [Some 0]),
                 (''SRAD'', Float64 [Some 15])]\<rparr>"
  by code_simp

subsection \<open>The columns of the records\<close>

lemma getitem_ok: "k \<in> set (colnames f) \<Longrightarrow> \<exists>s. getitem f k = Inr s"
  by (cases "map_of (columns f) k") (auto simp: getitem_def colnames_def map_of_eq_None_iff)

lemma PARS_DATA_not_renamed: "v \<in> set PARS_DATA \<Longrightarrow> v \<notin> set (renamed_keys pars)"
  by (auto simp: renamed_keys_def)

lemma rename_columns_ok:
  assumes "r < length h" and "valid_mapping (h ! r) pars"
  shows "snd (rename_columns h r pars) = Inr () \<and>
         set (colnames (fst (rename_columns h r pars) ! r)) =
           set (colnames (h ! r)) - set (renamed_keys pars) \<union> set (rename_targets pars)"
  using assms
proof (induction pars arbitrary: h)
  case Nil
  then show ?case by (simp add: renamed_keys_def rename_targets_def)
next
  case (Cons p pars)
  obtain key val where p: "p = (key, val)" by (cases p)
  from Cons.prems(2) p have val: "val \<in> set PARS_DATA"
    and dist: "key \<notin> fst ` set pars" "distinct (map fst pars)"
    and vals: "list_all (\<lambda>(k, v). v \<in> set PARS_DATA) pars"
    by (auto simp: valid_mapping_def)
  show ?case
  proof (cases "key \<in> set PARS_DATA")
    case True
    then have "valid_mapping (h ! r) pars"
      using Cons.prems(2) p by (auto simp: valid_mapping_def renamed_keys_def)
    from Cons.IH[OF Cons.prems(1) this] show ?thesis
      using True val p by (simp add: renamed_keys_def rename_targets_def)
  next
    case False
    then have keys: "renamed_keys (p # pars) = key # renamed_keys pars"
      and tgts: "rename_targets (p # pars) = val # rename_targets pars"
      using p by (simp_all add: renamed_keys_def rename_targets_def)
    from Cons.prems(2) keys have kin: "key \<in> set (colnames (h ! r))"
      and rest: "list_all (\<lambda>k. k \<in> set (colnames (h ! r))) (renamed_keys pars)"
      by (simp_all add: valid_mapping_def)
    obtain s where s: "getitem (h ! r) key = Inr s" using getitem_ok[OF kin] by blast
    let ?f1 = "setitem (h ! r) val s"
    have "set [key] \<subseteq> set (colnames ?f1)" using kin by (simp add: setitem_colnames)
    then obtain f where f: "drop_columns ?f1 [key] = Inr f" using drop_columns_ok by blast
    have cf: "set (colnames f) = insert val (set (colnames (h ! r))) - {key}"
      using drop_columns_colnames[OF f] by (simp add: setitem_colnames)
    have "key \<notin> set (renamed_keys pars)" using dist(1) by (auto simp: renamed_keys_def)
    then have "list_all (\<lambda>k. k \<in> set (colnames f)) (renamed_keys pars)"
      using rest cf by (auto simp: list_all_iff)
    then have vm: "valid_mapping (h[r := f] ! r) pars"
      using dist(2) vals Cons.prems(1) by (simp add: valid_mapping_def)
    have len: "r < length (h[r := f])" using Cons.prems(1) by simp
    have step: "rename_columns h r (p # pars) = rename_columns (h[r := f]) r pars"
      using p val False s f Cons.prems(1) by (simp add: Let_def)
    have "val \<notin> set (renamed_keys pars)" using val by (rule PARS_DATA_not_renamed)
    moreover have "val \<noteq> key" using val False by auto
    ultimately have "insert val (set (colnames (h ! r))) - {key} - set (renamed_keys pars) \<union>
          set (rename_targets pars) =
        set (colnames (h ! r)) - set (renamed_keys (p # pars)) \<union> set (rename_targets (p # pars))"
      unfolding keys tgts by auto
    with Cons.IH[OF len vm] show ?thesis
      unfolding step using cf Cons.prems(1) by simp
  qed
qed

lemma mapped_ok:
  assumes "df < length h" and "valid_mapping (h ! df) pars"
  shows "\<exists>d. mapped h df pars = Inr d \<and>
           set (colnames d) =
             set (colnames (h ! df)) - set (renamed_keys pars) \<union> set (rename_targets pars)"
proof -
  let ?h1 = "h @ [h ! df]"
  have "length h < length ?h1" "valid_mapping (?h1 ! length h) pars"
    using assms by simp_all
  from rename_columns_ok[OF this]
  show ?thesis
    by (cases "rename_columns ?h1 (length h) pars") (auto simp: mapped_def copy_def)
qed


lemma float_column_Some:
  "float_column d k = Some xs \<longleftrightarrow> map_of (columns d) k = Some (Float64 xs)"
  by (auto simp: float_column_def split: option.splits series.splits)

lemma satisfies_QC_D:
  assumes "satisfies_QC d"
  obtains tmin tmax rain srad where
    "map_of (columns d) ''TMIN'' = Some (Float64 tmin)"
    "map_of (columns d) ''TMAX'' = Some (Float64 tmax)"
    "map_of (columns d) ''RAIN'' = Some (Float64 rain)"
    "map_of (columns d) ''SRAD'' = Some (Float64 srad)"
    "TMIN_le_TMAX tmin tmax" "all_at_least 0 rain" "all_at_least 0 srad"
    "map_of (columns d) ''RHUM'' = None \<or>
       (\<exists>rhum. map_of (columns d) ''RHUM'' = Some (Float64 rhum) \<and> all_within 0 100 rhum)"
proof -
  from assms obtain tmin tmax rain srad where
    c: "float_column d ''TMIN'' = Some tmin" "float_column d ''TMAX'' = Some tmax"
       "float_column d ''RAIN'' = Some rain" "float_column d ''SRAD'' = Some srad"
    by (auto simp: satisfies_QC_def split: option.splits)
  with assms have r: "TMIN_le_TMAX tmin tmax" "all_at_least 0 rain" "all_at_least 0 srad"
    "map_of (columns d) ''RHUM'' = None \<or>
       (\<exists>rhum. map_of (columns d) ''RHUM'' = Some (Float64 rhum) \<and> all_within 0 100 rhum)"
    by (auto simp: satisfies_QC_def split: option.splits series.splits)
  show ?thesis
    by (rule that[of tmin tmax rain srad]) (use c r in \<open>simp_all add: float_column_Some\<close>)
qed

lemma satisfies_QC_checks:
  assumes "satisfies_QC d"
  shows "check_mandatory d = Inr ()" and "quality_control d = Inr ()"
proof -
  from assms obtain tmin tmax rain srad where
    c: "map_of (columns d) ''TMIN'' = Some (Float64 tmin)"
       "map_of (columns d) ''TMAX'' = Some (Float64 tmax)"
       "map_of (columns d) ''RAIN'' = Some (Float64 rain)"
       "map_of (columns d) ''SRAD'' = Some (Float64 srad)"
    and r: "TMIN_le_TMAX tmin tmax" "all_at_least 0 rain" "all_at_least 0 srad"
    and rh: "map_of (columns d) ''RHUM'' = None \<or>
       (\<exists>rhum. map_of (columns d) ''RHUM'' = Some (Float64 rhum) \<and> all_within 0 100 rhum)"
    by (rule satisfies_QC_D)
  from c show "check_mandatory d = Inr ()"
    by (simp add: check_mandatory_def MANDATORY_DATA_def in_colnames)
  from rh obtain rhum where "map_of (columns d) ''RHUM'' = None \<or>
       map_of (columns d) ''RHUM'' = Some (Float64 rhum) \<and> all_within 0 100 rhum"
    by blast
  from qc_pass[OF c(1,2) r(1) this c(3) r(2) c(4) r(3)]
  show "quality_control d = Inr ()" .
qed

lemma satisfies_QC_mandatory_float:
  assumes "satisfies_QC d" and "x \<in> set MANDATORY_DATA"
  shows "\<exists>xs. map_of (columns d) x = Some (Float64 xs)"
  using satisfies_QC_D[OF assms(1)] assms(2) unfolding MANDATORY_DATA_def
  by (metis insert_iff list.simps(15) empty_iff empty_set)

lemma Weather_init_datetime_index:
  assumes "mapped h df pars = Inr d" and "satisfies_QC d" and "is_datetime64_index (index d)"
  shows "Weather_init h df pars lat lon elev =
           (h @ [d], Inr (new_station lat lon elev (length h)))"
  using satisfies_QC_checks[OF assms(2)] check_date_column_index[OF assms(3)]
  by (simp add: Weather_init_mapped[OF assms(1)] bind_e_def)

lemma Weather_init_datetime_column:
  assumes "mapped h df pars = Inr d" and "satisfies_QC d"
    and "\<not> is_datetime64_index (index d)" and "datetime_columns d \<noteq> []"
    and "last (datetime_columns d) \<noteq> []"
    and "map_of (columns d) (last (datetime_columns d)) = Some (Datetime64 ds)"
  shows "Weather_init h df pars lat lon elev =
           (h @ [\<lparr>index = DatetimeIndex ds,
                   columns = filter (\<lambda>(k, s). k \<noteq> last (datetime_columns d)) (columns d)\<rparr>],
            Inr (new_station lat lon elev (length h)))"
  using satisfies_QC_checks[OF assms(2)] check_date_column_last[OF assms(3-5)]
  by (simp add: Weather_init_mapped[OF assms(1)] bind_e_def set_index_datetime[OF assms(6)])

lemma colnames_filter_neq:
  "set (colnames \<lparr>index = i, columns = filter (\<lambda>(k, s). k \<noteq> c) cs\<rparr>) = fst ` set cs - {c}"
  by (force simp: colnames_def)

text \<open>
  Claim C1, as amended. For a well-formed table and a mapping that fits it the renaming
  succeeds, and when the renamed table satisfies the quality rules (which asks for the
  mandatory variables) and has a source of dates, the constructor succeeds. The columns of the
  records are the columns of the input table with every renamed source column replaced by
  the variable it is mapped to, less the column adopted as the index; the mandatory variables
  are among them, and a column the mapping does not mention is kept.
\<close>

theorem build_succeeds_and_keeps_columns:
  assumes "df < length h" and "wf_frame (h ! df)" and "valid_mapping (h ! df) pars"
  shows "\<exists>d. mapped h df pars = Inr d \<and>
           set (colnames d) =
             set (colnames (h ! df)) - set (renamed_keys pars) \<union> set (rename_targets pars) \<and>
           (satisfies_QC d \<and> has_date_source d \<longrightarrow>
              snd (Weather_init h df pars lat lon elev) =
                Inr (new_station lat lon elev (length h)) \<and>
              set (colnames (fst (Weather_init h df pars lat lon elev) ! length h)) =
                set (colnames d) - set (adopted_date_column d) \<and>
              set MANDATORY_DATA \<subseteq>
                set (colnames (fst (Weather_init h df pars lat lon elev) ! length h)))"
proof -
  from mapped_ok[OF assms(1,3)] obtain d where
    m: "mapped h df pars = Inr d" and
    cols: "set (colnames d) =
      set (colnames (h ! df)) - set (renamed_keys pars) \<union> set (rename_targets pars)"
    by blast
  have wf: "wf_frame d" using assms(1,2) m by (rule mapped_wf)
  have "snd (Weather_init h df pars lat lon elev) = Inr (new_station lat lon elev (length h)) \<and>
        set (colnames (fst (Weather_init h df pars lat lon elev) ! length h)) =
          set (colnames d) - set (adopted_date_column d) \<and>
        set MANDATORY_DATA \<subseteq> set (colnames (fst (Weather_init h df pars lat lon elev) ! length h))"
    if qc: "satisfies_QC d" and ds: "has_date_source d"
  proof -
    have mand: "set MANDATORY_DATA \<subseteq> set (colnames d)"
      using satisfies_QC_mandatory_float[OF qc] by (fastforce simp: in_colnames)
    show ?thesis
    proof (cases "is_datetime64_index (index d)")
      case True
      from Weather_init_datetime_index[OF m qc True, of lat lon elev] mand True
      show ?thesis by (simp add: adopted_date_column_def)
    next
      case False
      let ?c = "last (datetime_columns d)"
      from False ds have ne: "datetime_columns d \<noteq> []" "?c \<noteq> []"
        by (auto simp: has_date_source_def)
      then have "?c \<in> set (datetime_columns d)" by simp
      then obtain dts where dts: "map_of (columns d) ?c = Some (Datetime64 dts)"
        using datetime_column_lookup[OF wf] by blast
      have "?c \<notin> set MANDATORY_DATA"
        using satisfies_QC_mandatory_float[OF qc, of ?c] dts by auto
      with mand have "set MANDATORY_DATA \<subseteq> set (colnames d) - {?c}" by auto
      with Weather_init_datetime_column[OF m qc False ne dts, of lat lon elev] False
      show ?thesis
        by (simp add: adopted_date_column_def colnames_filter_neq) (simp add: colnames_def)
    qed
  qed
  with m cols show ?thesis by blast
qed


lemma example_mapped: "mapped [example_df] 0 example_pars = Inr example_data"
  by code_simp

lemma example_df_facts:
  "wf_frame example_df" "valid_mapping example_df example_pars"
  "satisfies_QC example_data" "has_date_source example_data"
  by code_simp+

theorem build_succeeds_and_keeps_columns_witness:
  "(0::nat) < length [example_df] \<and> wf_frame ([example_df] ! 0) \<and>
   valid_mapping ([example_df] ! 0) example_pars \<and>
   mapped [example_df] 0 example_pars = Inr example_data \<and>
   satisfies_QC example_data \<and> has_date_source example_data \<and>
   snd (Weather_init [example_df] 0 example_pars (227 / 50) (- (751 / 10)) 1800) =
     Inr (new_station (227 / 50) (- (751 / 10)) 1800 1) \<and>
   set (colnames (fst (Weather_init [example_df] 0 example_pars (227 / 50) (- (751 / 10)) 1800) ! 1)) =
     set (colnames example_data) - set (adopted_date_column example_data) \<and>
   set MANDATORY_DATA \<subseteq>
     set (colnames (fst (Weather_init [example_df] 0 example_pars (227 / 50) (- (751 / 10)) 1800) ! 1))"
proof -
  have h: "(0::nat) < length [example_df]" "wf_frame ([example_df] ! 0)"
    "valid_mapping ([example_df] ! 0) example_pars"
    by (simp_all add: example_df_facts)
  from build_succeeds_and_keeps_columns[OF h, of "227 / 50" "- (751 / 10)" 1800]
  obtain d where d: "mapped [example_df] 0 example_pars = Inr d"
    and imp: "satisfies_QC d \<and> has_date_source d \<longrightarrow>
       snd (Weather_init [example_df] 0 example_pars (227 / 50) (- (751 / 10)) 1800) =
         Inr (new_station (227 / 50) (- (751 / 10)) 1800 (length [example_df])) \<and>
       set (colnames (fst (Weather_init [example_df] 0 example_pars (227 / 50) (- (751 / 10)) 1800) !
              length [example_df])) = set (colnames d) - set (adopted_date_column d) \<and>
       set MANDATORY_DATA \<subseteq>
         set (colnames (fst (Weather_init [example_df] 0 example_pars (227 / 50) (- (751 / 10)) 1800) !
                length [example_df]))"
    by blast
  from d have eq: "d = example_data" by (simp add: example_mapped)
  have len: "length [example_df] = 1" by simp
  from imp[unfolded eq len] example_df_facts(3,4)
  have "snd (Weather_init [example_df] 0 example_pars (227 / 50) (- (751 / 10)) 1800) =
       Inr (new_station (227 / 50) (- (751 / 10)) 1800 1) \<and>
     set (colnames (fst (Weather_init [example_df] 0 example_pars (227 / 50) (- (751 / 10)) 1800) ! 1)) =
       set (colnames example_data) - set (adopted_date_column example_data) \<and>
     set MANDATORY_DATA \<subseteq>
       set (colnames (fst (Weather_init [example_df] 0 example_pars (227 / 50) (- (751 / 10)) 1800) ! 1))"
    by blast
  with h example_mapped example_df_facts(3,4) show ?thesis by blast
qed

text \<open>
  Claim C1 as stated fails: the column \<^verbatim>\<open>foo\<close>, which is no mandatory variable and no target
  of the mapping, is a column of the records.
\<close>

theorem unmapped_column_is_kept:
  "snd (Weather_init [extra_column_df] 0 [(''tn'', ''TMIN'')] 0 0 0) = Inr (new_station 0 0 0 1) \<and>
   colnames (fst (Weather_init [extra_column_df] 0 [(''tn'', ''TMIN'')] 0 0 0) ! 1) =
     [''TMAX'', ''RAIN'', ''SRAD'', ''foo'', ''TMIN''] \<and>
   ''foo'' \<notin> set (MANDATORY_DATA @ map snd [(''tn'', ''TMIN'')])"
  by code_simp

subsection \<open>Rows of a table selected by a mask\<close>

lemma select_map: "select keep (map g xs) = map g (select keep xs)"
proof -
  have "zip keep (map g xs) = map (\<lambda>(b, x). (b, g x)) (zip keep xs)"
    by (simp add: zip_map2)
  then show ?thesis
    by (simp add: select_def filter_map comp_def case_prod_beta)
qed

lemma select_nth: "select keep xs = map ((!) xs) (select keep [0..<length xs])"
proof -
  have "select keep xs = select keep (map ((!) xs) [0..<length xs])"
    by (simp add: map_nth)
  then show ?thesis by (simp only: select_map)
qed

lemma select_filter: "select (map P xs) xs = filter P xs"
  by (induction xs) (simp_all add: select_def)

lemma series_cells_select:
  "series_cells (select_series keep s) = select keep (series_cells s)"
  by (cases s) (simp_all add: select_map)

lemma series_cells_length: "length (series_cells s) = series_len s"
  by (cases s) simp_all


lemma map_nth_comp: "map (\<lambda>j. g (xs ! j)) [0..<length xs] = map g xs"
  by (rule nth_equalityI) simp_all

lemma iterrows_loc:
  assumes wf: "wf_frame f" and idx: "index f = DatetimeIndex ds"
  shows "iterrows (loc f keep) = select keep (iterrows f)"
proof -
  let ?n = "length ds"
  let ?I = "select keep [0..<?n]"
  let ?row = "\<lambda>i. (ds ! i, map (\<lambda>(k, s). series_cells s ! i) (columns f))"
  have it: "iterrows f = map ?row [0..<?n]"
    by (simp add: iterrows_def idx)
  have dates: "index_dates (index (loc f keep)) = map ((!) ds) ?I"
    using select_nth[of keep ds] by (simp add: loc_def idx)
  have col: "series_cells (select_series keep s) ! j = series_cells s ! (?I ! j)"
    if "(k, s) \<in> set (columns f)" and "j < length ?I" for k s j
  proof -
    have "series_len s = ?n"
      using wf that(1) by (auto simp: wf_frame_def list_all_iff idx)
    then have "length (series_cells s) = ?n" by (simp add: series_cells_length)
    then have "series_cells (select_series keep s) = map ((!) (series_cells s)) ?I"
      using select_nth[of keep "series_cells s"] by (simp add: series_cells_select)
    then show ?thesis using that(2) by simp
  qed
  have "iterrows (loc f keep) =
      map (\<lambda>j. (map ((!) ds) ?I ! j,
                 map (\<lambda>(k, s). series_cells s ! j) (columns (loc f keep)))) [0..<length ?I]"
    by (simp add: iterrows_def dates)
  also have "\<dots> = map (\<lambda>j. ?row (?I ! j)) [0..<length ?I]"
  proof (rule map_cong[OF refl])
    fix j assume "j \<in> set [0..<length ?I]"
    then have j: "j < length ?I" by simp
    have "map (\<lambda>(k, s). series_cells s ! j) (columns (loc f keep)) =
        map (\<lambda>(k, s). series_cells s ! (?I ! j)) (columns f)"
      using col[OF _ j] by (auto simp: loc_def comp_def case_prod_beta)
    then show "(map ((!) ds) ?I ! j, map (\<lambda>(k, s). series_cells s ! j) (columns (loc f keep))) =
        ?row (?I ! j)"
      using j by simp
  qed
  also have "\<dots> = map ?row ?I" by (rule map_nth_comp)
  also have "\<dots> = select keep (iterrows f)" by (simp add: it select_map)
  finally show ?thesis .
qed

lemma iterrows_dates:
  "index f = DatetimeIndex ds \<Longrightarrow> map fst (iterrows f) = ds"
  by (rule nth_equalityI) (simp_all add: iterrows_def)

lemma iterrows_loc_filter:
  assumes wf: "wf_frame f" and idx: "index f = DatetimeIndex ds"
  shows "iterrows (loc f (map P ds)) = filter (\<lambda>row. P (fst row)) (iterrows f)"
proof -
  have "map (\<lambda>row. P (fst row)) (iterrows f) = map P (map fst (iterrows f))"
    by (simp add: comp_def)
  also have "\<dots> = map P ds" by (simp only: iterrows_dates[OF idx])
  finally have "select (map P ds) (iterrows f) = filter (\<lambda>row. P (fst row)) (iterrows f)"
    using select_filter[of "\<lambda>row. P (fst row)" "iterrows f"] by simp
  then show ?thesis by (simp only: iterrows_loc[OF wf idx])
qed

lemma loc_colnames: "colnames (loc f keep) = colnames f"
  by (simp add: colnames_def loc_def comp_def case_prod_beta)

lemma series_len_select:
  "series_len (select_series keep s) = length (select keep [0..<series_len s])"
proof (cases s)
  case (Float64 xs)
  show ?thesis unfolding Float64 by (simp, subst select_nth, simp)
next
  case (Datetime64 ds)
  show ?thesis unfolding Datetime64 by (simp, subst select_nth, simp)
qed

lemma index_len_select:
  "index_len (select_index keep i) = length (select keep [0..<index_len i])"
proof (cases i)
  case (DatetimeIndex ds)
  show ?thesis unfolding DatetimeIndex by (simp, subst select_nth, simp)
next
  case (Int64Index ns)
  show ?thesis unfolding Int64Index by (simp, subst select_nth, simp)
next
  case (Float64Index xs)
  show ?thesis unfolding Float64Index by (simp, subst select_nth, simp)
qed

lemma loc_wf:
  assumes "wf_frame f"
  shows "wf_frame (loc f keep)"
proof -
  have d: "distinct (colnames (loc f keep))"
    using assms by (simp add: loc_colnames wf_frame_def)
  have "series_len (select_series keep s) = index_len (index (loc f keep))"
    if "(k, s) \<in> set (columns f)" for k s
  proof -
    have "series_len s = index_len (index f)"
      using assms that by (auto simp: wf_frame_def list_all_iff)
    then show ?thesis
      by (simp add: series_len_select index_len_select loc_def)
  qed
  then have "list_all (\<lambda>(k, s). series_len s = index_len (index (loc f keep))) (columns (loc f keep))"
    by (auto simp: list_all_iff loc_def)
  with d show ?thesis by (simp add: wf_frame_def)
qed

subsection \<open>The files of the writer\<close>







lemma Weather_write_all:
  assumes "index (h ! data self) = DatetimeIndex ds"
  shows "Weather_write fm h self True None =
     Inr (h, self, map (year_file fm self (h ! data self) (map year ds)) (unique (map year ds)))"
  by (simp add: Weather_write_def bind_e_def assms)

lemma Weather_write_from:
  assumes "index (h ! data self) = DatetimeIndex ds"
  shows "Weather_write fm h self True (Some start) =
     Weather_write fm (h @ [loc (h ! data self) (map (\<lambda>d. start \<le> d) ds)])
       (self\<lparr>data := length h\<rparr>) True None"
  by (simp add: Weather_write_def bind_e_def assms)

lemma loc_index:
  "index f = DatetimeIndex ds \<Longrightarrow> index (loc f (map P ds)) = DatetimeIndex (filter P ds)"
  by (simp add: loc_def select_filter)














subsection \<open>Truncation by the start of the simulation, and the names of the files\<close>

lemma write_from_index:
  assumes "index (h ! data self) = DatetimeIndex ds"
  shows "index ((h @ [loc (h ! data self) (map (\<lambda>d. start \<le> d) ds)]) ! data (self\<lparr>data := length h\<rparr>)) =
           DatetimeIndex (filter (\<lambda>d. start \<le> d) ds)"
  by (simp add: loc_index[OF assms])

lemma write_from_wf:
  assumes "wf_frame (h ! data self)"
  shows "wf_frame ((h @ [loc (h ! data self) keep]) ! data (self\<lparr>data := length h\<rparr>))"
  by (simp add: loc_wf[OF assms])

lemma write_from_records:
  assumes "wf_frame (h ! data self)" and "index (h ! data self) = DatetimeIndex ds"
  shows "records (h @ [loc (h ! data self) (map (\<lambda>d. start \<le> d) ds)]) (self\<lparr>data := length h\<rparr>) =
           filter (\<lambda>row. start \<le> fst row) (records h self)"
  by (simp add: records_def iterrows_loc_filter[OF assms])

lemma write_from_result:
  assumes "index (h ! data self) = DatetimeIndex ds"
  shows "Weather_write fm h self True (Some start) =
           Inr (h @ [loc (h ! data self) (map (\<lambda>d. start \<le> d) ds)], self\<lparr>data := length h\<rparr>,
                written_files (Weather_write fm (h @ [loc (h ! data self) (map (\<lambda>d. start \<le> d) ds)])
                  (self\<lparr>data := length h\<rparr>) True None))"
  unfolding Weather_write_from[OF assms, of fm start]
  by (simp add: Weather_write_all[OF write_from_index[OF assms]] written_files_def)

text \<open>
  Claim C7. With a start of the simulation the writer succeeds, and the records of the
  station after the call are exactly the rows of the records before it whose date is at or
  after the start; the files are written from these records. The station keeps the truncated
  records, so a second call with another start truncates what the first call has left.
\<close>

theorem write_truncates_station:
  assumes "wf_frame (h ! data self)" and "index (h ! data self) = DatetimeIndex ds"
  shows "\<exists>h1 self1 files1.
           Weather_write fm h self True (Some start) = Inr (h1, self1, files1) \<and>
           self1 = self\<lparr>data := length h\<rparr> \<and> take (length h) h1 = h \<and>
           records h1 self1 = filter (\<lambda>row. start \<le> fst row) (records h self) \<and>
           files1 = written_files (Weather_write fm h1 self1 True None) \<and>
           (\<exists>h2 self2 files2.
              Weather_write fm h1 self1 True (Some start2) = Inr (h2, self2, files2) \<and>
              records h2 self2 =
                filter (\<lambda>row. start2 \<le> fst row)
                  (filter (\<lambda>row. start \<le> fst row) (records h self)))"
proof -
  let ?new = "loc (h ! data self) (map (\<lambda>d. start \<le> d) ds)"
  let ?h1 = "h @ [?new]"
  let ?self1 = "self\<lparr>data := length h\<rparr>"
  have r1: "records ?h1 ?self1 = filter (\<lambda>row. start \<le> fst row) (records h self)"
    by (rule write_from_records[OF assms])
  have wf1: "wf_frame (?h1 ! data ?self1)" by (rule write_from_wf[OF assms(1)])
  have idx1: "index (?h1 ! data ?self1) = DatetimeIndex (filter (\<lambda>d. start \<le> d) ds)"
    by (rule write_from_index[OF assms(2)])
  have "\<exists>h2 self2 files2.
      Weather_write fm ?h1 ?self1 True (Some start2) = Inr (h2, self2, files2) \<and>
      records h2 self2 =
        filter (\<lambda>row. start2 \<le> fst row) (filter (\<lambda>row. start \<le> fst row) (records h self))"
    using write_from_result[OF idx1, of fm start2] write_from_records[OF wf1 idx1, of start2]
    by (simp only: r1) blast
  then have "Weather_write fm h self True (Some start) =
        Inr (?h1, ?self1, written_files (Weather_write fm ?h1 ?self1 True None)) \<and>
      ?self1 = self\<lparr>data := length h\<rparr> \<and> take (length h) ?h1 = h \<and>
      records ?h1 ?self1 = filter (\<lambda>row. start \<le> fst row) (records h self) \<and>
      written_files (Weather_write fm ?h1 ?self1 True None) =
        written_files (Weather_write fm ?h1 ?self1 True None) \<and>
      (\<exists>h2 self2 files2.
          Weather_write fm ?h1 ?self1 True (Some start2) = Inr (h2, self2, files2) \<and>
          records h2 self2 =
            filter (\<lambda>row. start2 \<le> fst row)
              (filter (\<lambda>row. start \<le> fst row) (records h self)))"
    using write_from_result[OF assms(2), of fm start] r1 by (intro conjI) simp_all
  then show ?thesis by blast
qed


lemma map_fst_filter:
  "map fst (filter (\<lambda>row. P (fst row)) rows) = filter P (map fst rows)"
  by (induction rows) simp_all

theorem write_truncates_station_witness:
  "wf_frame ([two_year_data] ! data first_station) \<and>
   index ([two_year_data] ! data first_station) =
     DatetimeIndex [(2000, 12, 30), (2000, 12, 31), (2001, 1, 1)] \<and>
   (\<exists>h1 self1 files1.
      Weather_write plain_formater [two_year_data] first_station True (Some (2000, 12, 31)) =
        Inr (h1, self1, files1) \<and>
      map fst (records h1 self1) = [(2000, 12, 31), (2001, 1, 1)] \<and>
      (\<exists>h2 self2 files2.
         Weather_write plain_formater h1 self1 True (Some (2001, 1, 1)) = Inr (h2, self2, files2) \<and>
         map fst (records h2 self2) = [(2001, 1, 1)]))"
proof -
  have d: "data first_station = 0" by (simp add: first_station_def)
  have wf: "wf_frame ([two_year_data] ! data first_station)"
    unfolding d by (simp add: wf_frame_def two_year_data_def colnames_def)
  have idx: "index ([two_year_data] ! data first_station) =
     DatetimeIndex [(2000, 12, 30), (2000, 12, 31), (2001, 1, 1)]"
    unfolding d by (simp add: two_year_data_def)
  have ds: "map fst (records [two_year_data] first_station) =
      [(2000, 12, 30), (2000, 12, 31), (2001, 1, 1)]"
    unfolding records_def by (rule iterrows_dates[OF idx])
  from write_truncates_station[OF wf idx, of plain_formater "(2000, 12, 31)" "(2001, 1, 1)"]
  obtain h1 self1 files1 h2 self2 files2 where
    w1: "Weather_write plain_formater [two_year_data] first_station True (Some (2000, 12, 31)) =
        Inr (h1, self1, files1)"
    and r1: "records h1 self1 =
        filter (\<lambda>row. (2000, 12, 31) \<le> fst row) (records [two_year_data] first_station)"
    and w2: "Weather_write plain_formater h1 self1 True (Some (2001, 1, 1)) = Inr (h2, self2, files2)"
    and r2: "records h2 self2 =
        filter (\<lambda>row. (2001, 1, 1) \<le> fst row)
          (filter (\<lambda>row. (2000, 12, 31) \<le> fst row) (records [two_year_data] first_station))"
    by blast
  have m1: "map fst (records h1 self1) = [(2000, 12, 31), (2001, 1, 1)]"
    unfolding r1 map_fst_filter ds by simp
  have m2: "map fst (records h2 self2) = [(2001, 1, 1)]"
    unfolding r2 map_fst_filter ds by simp
  have inner: "\<exists>h2 self2 files2.
      Weather_write plain_formater h1 self1 True (Some (2001, 1, 1)) = Inr (h2, self2, files2) \<and>
      map fst (records h2 self2) = [(2001, 1, 1)]"
    by (rule exI[of _ h2], rule exI[of _ self2], rule exI[of _ files2]) (intro conjI w2 m2)
  have "\<exists>h1 self1 files1.
      Weather_write plain_formater [two_year_data] first_station True (Some (2000, 12, 31)) =
        Inr (h1, self1, files1) \<and>
      map fst (records h1 self1) = [(2000, 12, 31), (2001, 1, 1)] \<and>
      (\<exists>h2 self2 files2.
         Weather_write plain_formater h1 self1 True (Some (2001, 1, 1)) = Inr (h2, self2, files2) \<and>
         map fst (records h2 self2) = [(2001, 1, 1)])"
    by (rule exI[of _ h1], rule exI[of _ self1], rule exI[of _ files1]) (intro conjI w1 m1 inner)
  with wf idx show ?thesis by (intro conjI)
qed

text \<open>
  Claim C6, at a station whose institute code was set to \<^verbatim>\<open>ABCDEF\<close> after construction: the
  writer puts the whole code into the name of the file, not its first 4 characters.
\<close>

theorem long_code_file_name:
  "INSI long_code_station = ''ABCDEF'' \<and>
   map fst (written_files (Weather_write plain_formater [example_data] long_code_station True None)) =
     [''ABCDEF0001.WTH''] \<and>
   take 4 (INSI long_code_station) @ ''0001.WTH'' = ''ABCD0001.WTH''"
  by code_simp

subsection \<open>The records of a constructed station\<close>

text \<open>
  The table of a station the constructor has made of a well-formed table is well-formed and
  has a timestamp index: the theorems on the writer apply to it.
\<close>

lemma check_date_column_cases:
  assumes "check_date_column d = Inr dc"
  shows "dc = DC_True \<and> is_datetime64_index (index d) \<or>
         \<not> is_datetime64_index (index d) \<and> datetime_columns d \<noteq> [] \<and>
           last (datetime_columns d) \<noteq> [] \<and> dc = DC_Str (last (datetime_columns d))"
  using assms
  by (auto simp: check_date_column_def Let_def scan_columns_last datetime_columns_def
      split: if_splits)

lemma set_index_wf:
  assumes "wf_frame d" and "map_of (columns d) c = Some (Datetime64 ds)"
  shows "wf_frame \<lparr>index = DatetimeIndex ds, columns = filter (\<lambda>(k, s). k \<noteq> c) (columns d)\<rparr>"
proof -
  have "length ds = index_len (index d)"
    using wf_column_length[OF assms] by simp
  then show ?thesis
    using assms(1)
    by (auto simp: wf_frame_def colnames_def distinct_map_filter list_all_iff)
qed

lemma Weather_init_station:
  assumes "df < length h" and "wf_frame (h ! df)"
    and "snd (Weather_init h df pars lat lon elev) = Inr w"
  shows "wf_frame (fst (Weather_init h df pars lat lon elev) ! data w) \<and>
         is_datetime64_index (index (fst (Weather_init h df pars lat lon elev) ! data w))"
proof (cases "mapped h df pars")
  case (Inl e)
  then show ?thesis using mapped_fail[OF Inl, of lat lon elev] assms(3) by simp
next
  case (Inr d)
  note W = Weather_init_mapped[OF Inr, of lat lon elev]
  have wf: "wf_frame d" using assms(1,2) Inr by (rule mapped_wf)
  from assms(3) obtain dc where dc: "check_date_column d = Inr dc"
    by (auto simp: W bind_e_def split: sum.splits)
  from check_date_column_cases[OF dc] show ?thesis
  proof
    assume a: "dc = DC_True \<and> is_datetime64_index (index d)"
    with assms(3) dc have "Weather_init h df pars lat lon elev = (h @ [d], Inr w)" "data w = length h"
      by (auto simp: W bind_e_def new_station_def split: sum.splits)
    with a wf show ?thesis by simp
  next
    assume a: "\<not> is_datetime64_index (index d) \<and> datetime_columns d \<noteq> [] \<and>
           last (datetime_columns d) \<noteq> [] \<and> dc = DC_Str (last (datetime_columns d))"
    let ?c = "last (datetime_columns d)"
    from a have "?c \<in> set (datetime_columns d)" by simp
    then obtain ds where ds: "map_of (columns d) ?c = Some (Datetime64 ds)"
      using datetime_column_lookup[OF wf] by blast
    let ?f = "\<lparr>index = DatetimeIndex ds, columns = filter (\<lambda>(k, s). k \<noteq> ?c) (columns d)\<rparr>"
    from assms(3) dc a have "Weather_init h df pars lat lon elev = (h @ [?f], Inr w)"
      "data w = length h"
      by (auto simp: W bind_e_def new_station_def set_index_datetime[OF ds] split: sum.splits)
    then show ?thesis using set_index_wf[OF wf ds] by simp
  qed
qed

end
